theory Spec2Isabelle
  imports Main "HOL-Library.Multiset"
begin

section \<open>Data model\<close>

text \<open>
  The web client is TypeScript. Its type declarations live in \<^verbatim>\<open>web/src/lib/types\<close>,
  which the components import; the records below carry the fields the components read
  and write. A JavaScript \<^verbatim>\<open>number\<close> that holds a seat, a round or a count is an
  \<open>int\<close>; an optional field (\<^verbatim>\<open>role?: string\<close>) is an \<open>option\<close>, with \<open>None\<close> for
  \<^verbatim>\<open>undefined\<close>. Field names keep the source's names, with a short prefix where
  two records share a name.
\<close>

datatype Team = good | evil

datatype GamePhase =
    role_assignment | night_phase | team_selection | discussion | team_vote
  | quest_execution | assassination_discussion | assassination | game_over

datatype GameStatus = waiting | in_progress | finished

datatype HumanActionType =
    act_team_selection | act_discussion | act_leader_discussion | act_vote | act_quest
  | act_assassination_discussion | act_assassinate

record Player =
  seat :: int
  name :: string
  is_human :: bool
  role :: "string option"
  team :: "Team option"
  model_name :: "string option"
  is_on_quest :: bool
  is_leader :: bool

record QuestResult =
  q_round :: int
  q_success :: "bool option"
  q_fail_votes :: int
  q_team_members :: "int list"
  q_quest_votes :: "(int \<times> bool) list"

record VoteResult =
  v_round :: int
  v_attempt :: int
  v_votes :: "(int \<times> bool) list"
  v_approved :: bool

record DiscussionMessage =
  m_seat :: int
  m_player_name :: string
  m_content :: string
  m_timestamp :: string
  m_round :: "int option"
  m_attempt :: "int option"

record GameState =
  game_id :: string
  status :: GameStatus
  phase :: GamePhase
  current_round :: int
  current_leader :: int
  vote_attempt :: int
  player_count :: int
  players :: "Player list"
  proposed_team :: "int list"
  quest_results :: "QuestResult list"
  vote_history :: "VoteResult list"
  discussion_history :: "DiscussionMessage list"
  assassination_discussion_history :: "DiscussionMessage list option"
  assassinated_player :: "int option"
  winner :: "Team option"
  waiting_for_human :: bool
  human_action_type :: "HumanActionType option"

text \<open>
  JavaScript truthiness of an optional string: \<^verbatim>\<open>undefined\<close> and the empty string are
  falsy, every other string is truthy.
\<close>

fun truthy_str :: "string option \<Rightarrow> bool" where
  "truthy_str None = False"
| "truthy_str (Some s) = (s \<noteq> [])"

text \<open>
  \<^verbatim>\<open>xs[i]\<close> on a JavaScript array: the element when \<open>i\<close> is an index of the array,
  \<^verbatim>\<open>undefined\<close> otherwise (a negative or too large index does not throw).
\<close>

definition js_index :: "'a list \<Rightarrow> int \<Rightarrow> 'a option" where
  "js_index xs i = (if 0 \<le> i \<and> i < int (length xs) then Some (xs ! nat i) else None)"

section \<open>The store (stores/gameStore.ts)\<close>

record GameStore =
  connected :: bool
  gameState :: "GameState option"
  humanSeat :: "int option"
  godMode :: bool
  selectedPlayers :: "int list"

text \<open>
  \<^verbatim>\<open>togglePlayerSelection: (seat) => set((state) => ({
      selectedPlayers: state.selectedPlayers.includes(seat)
        ? state.selectedPlayers.filter((s) => s !== seat)
        : [...state.selectedPlayers, seat] }))\<close>
  \<open>toggle_list\<close> is the expression on the list; \<open>togglePlayerSelection\<close> is the store
  update (zustand merges the partial state, so the other fields stay).
\<close>

definition toggle_list :: "int \<Rightarrow> int list \<Rightarrow> int list" where
  "toggle_list k s = (if k \<in> set s then filter (\<lambda>x. x \<noteq> k) s else s @ [k])"

definition togglePlayerSelection :: "int \<Rightarrow> GameStore \<Rightarrow> GameStore" where
  "togglePlayerSelection k st = st\<lparr>selectedPlayers := toggle_list k (selectedPlayers st)\<rparr>"

section \<open>Replay navigation (pages/Replay.tsx)\<close>

text \<open>
  The component state of \<^verbatim>\<open>Replay\<close> that navigation touches: \<^verbatim>\<open>currentIndex\<close>,
  \<^verbatim>\<open>playing\<close>, and whether the \<^verbatim>\<open>setTimeout\<close> of the auto-play effect is pending.
  The list of states is loaded once and is a parameter.
\<close>

record ReplayState =
  currentIndex :: int
  playing :: bool
  timerPending :: bool

definition replayInit :: ReplayState where
  "replayInit = \<lparr>currentIndex = 0, playing = False, timerPending = False\<rparr>"

text \<open>
  \<^verbatim>\<open>useEffect(() => {
      if (!playing || currentIndex >= states.length - 1) { setPlaying(false); return; }
      const timer = setTimeout(() => { setCurrentIndex((i) => i + 1); }, 2000);
      return () => clearTimeout(timer);
    }, [playing, currentIndex, states.length])\<close>
  The effect runs again whenever one of its dependencies changed; its cleanup clears the
  timer of the previous run first.
\<close>

definition autoPlayEffect :: "'a list \<Rightarrow> ReplayState \<Rightarrow> ReplayState" where
  "autoPlayEffect states st =
     (if \<not> playing st \<or> currentIndex st \<ge> int (length states) - 1
      then st\<lparr>playing := False, timerPending := False\<rparr>
      else st\<lparr>timerPending := True\<rparr>)"

text \<open>The timer's callback: \<^verbatim>\<open>setCurrentIndex((i) => i + 1)\<close>.\<close>

definition timerCallback :: "ReplayState \<Rightarrow> ReplayState" where
  "timerCallback st = st\<lparr>currentIndex := currentIndex st + 1, timerPending := False\<rparr>"

text \<open>
  \<^verbatim>\<open>handlePrev = () => { setCurrentIndex((i) => Math.max(0, i - 1)); setPlaying(false); }\<close>
  \<^verbatim>\<open>handleNext = () => { setCurrentIndex((i) => Math.min(states.length - 1, i + 1)); setPlaying(false); }\<close>
  \<^verbatim>\<open>handleSeek = (index) => { setCurrentIndex(index); setPlaying(false); }\<close>
\<close>

definition handlePrev :: "ReplayState \<Rightarrow> ReplayState" where
  "handlePrev st = st\<lparr>currentIndex := max 0 (currentIndex st - 1), playing := False\<rparr>"

definition handleNext :: "'a list \<Rightarrow> ReplayState \<Rightarrow> ReplayState" where
  "handleNext states st =
     st\<lparr>currentIndex := min (int (length states) - 1) (currentIndex st + 1), playing := False\<rparr>"

definition handleSeek :: "int \<Rightarrow> ReplayState \<Rightarrow> ReplayState" where
  "handleSeek index st = st\<lparr>currentIndex := index, playing := False\<rparr>"

definition togglePlaying :: "ReplayState \<Rightarrow> ReplayState" where
  "togglePlaying st = st\<lparr>playing := \<not> playing st\<rparr>"

text \<open>
  What can happen to the page: a click on one of the three buttons, a click on segment
  \<open>index\<close> of the timeline (\<^verbatim>\<open>states.map((_, index) => <button onClick={() =>
  handleSeek(index)} />)\<close>, so one segment per index of \<^verbatim>\<open>states\<close>), or the timer
  firing. The buttons carry \<^verbatim>\<open>disabled={currentIndex === 0}\<close> (previous) and
  \<^verbatim>\<open>disabled={currentIndex >= states.length - 1}\<close> (play and next); a disabled button
  does not call its handler. After the update the effect runs.
\<close>

datatype ReplayEvent = ClickPrev | ClickPlay | ClickNext | ClickSeek int | TimerFires

fun replayStep :: "'a list \<Rightarrow> ReplayState \<Rightarrow> ReplayEvent \<Rightarrow> ReplayState" where
  "replayStep states st ClickPrev =
     (if currentIndex st = 0 then st else autoPlayEffect states (handlePrev st))"
| "replayStep states st ClickPlay =
     (if currentIndex st \<ge> int (length states) - 1 then st
      else autoPlayEffect states (togglePlaying st))"
| "replayStep states st ClickNext =
     (if currentIndex st \<ge> int (length states) - 1 then st
      else autoPlayEffect states (handleNext states st))"
| "replayStep states st (ClickSeek index) =
     (if 0 \<le> index \<and> index < int (length states)
      then autoPlayEffect states (handleSeek index st) else st)"
| "replayStep states st TimerFires =
     (if timerPending st then autoPlayEffect states (timerCallback st) else st)"

definition replayRun :: "'a list \<Rightarrow> ReplayEvent list \<Rightarrow> ReplayState" where
  "replayRun states evs = foldl (replayStep states) (autoPlayEffect states replayInit) evs"

text \<open>\<^verbatim>\<open>const currentState = states[currentIndex]\<close>\<close>

definition currentState :: "'a list \<Rightarrow> ReplayState \<Rightarrow> 'a option" where
  "currentState states st = js_index states (currentIndex st)"

definition replayInv :: "'a list \<Rightarrow> ReplayState \<Rightarrow> bool" where
  "replayInv states st \<longleftrightarrow>
     0 \<le> currentIndex st \<and> currentIndex st < int (length states)
     \<and> (timerPending st \<longrightarrow> playing st \<and> currentIndex st < int (length states) - 1)
     \<and> (currentIndex st \<ge> int (length states) - 1 \<longrightarrow> \<not> playing st)"

section \<open>Quest tracker (components/QuestTracker.tsx)\<close>

text \<open>
  \<^verbatim>\<open>// Quest team sizes by player count
  const QUEST_SIZES: Record<number, number[]> = {
    5: [2, 3, 2, 3, 3], 6: [2, 3, 4, 3, 4], 7: [2, 3, 3, 4, 4],
    8: [3, 4, 4, 5, 5], 9: [3, 4, 4, 5, 5], 10: [3, 4, 4, 5, 5] }\<close>
  A key that the object does not have reads as \<^verbatim>\<open>undefined\<close>.
\<close>

definition QUEST_SIZES :: "int \<Rightarrow> int list option" where
  "QUEST_SIZES playerCount =
     (if playerCount = 5 then Some [2, 3, 2, 3, 3]
      else if playerCount = 6 then Some [2, 3, 4, 3, 4]
      else if playerCount = 7 then Some [2, 3, 3, 4, 4]
      else if playerCount = 8 then Some [3, 4, 4, 5, 5]
      else if playerCount = 9 then Some [3, 4, 4, 5, 5]
      else if playerCount = 10 then Some [3, 4, 4, 5, 5]
      else None)"

text \<open>\<^verbatim>\<open>const questSizes = QUEST_SIZES[playerCount] || QUEST_SIZES[5]\<close>\<close>

definition questSizes :: "int \<Rightarrow> int list option" where
  "questSizes playerCount =
     (case QUEST_SIZES playerCount of Some row \<Rightarrow> Some row | None \<Rightarrow> QUEST_SIZES 5)"

text \<open>
  \<^verbatim>\<open>const goodWins = questResults.filter(q => q.success === true).length;
  const showAssassination = goodWins >= 3 || phase === 'assassination_discussion'
      || phase === 'assassination' || phase === 'game_over';\<close>
  \<^verbatim>\<open>phase\<close> is an optional prop.
\<close>

definition goodWins :: "QuestResult list \<Rightarrow> nat" where
  "goodWins questResults = length (filter (\<lambda>q. q_success q = Some True) questResults)"

definition showAssassination :: "QuestResult list \<Rightarrow> GamePhase option \<Rightarrow> bool" where
  "showAssassination questResults ph \<longleftrightarrow>
     goodWins questResults \<ge> 3 \<or> ph = Some assassination_discussion
     \<or> ph = Some assassination \<or> ph = Some game_over"

text \<open>
  What the tracker renders, left to right: one circle for each of the rounds
  \<^verbatim>\<open>[1, 2, 3, 4, 5]\<close>, then, under \<^verbatim>\<open>showAssassination &&\<close>, a separator and the
  assassination circle.
\<close>

datatype TrackerItem = RoundCircle int | Separator | AssassinationCircle

definition questTrackerItems :: "QuestResult list \<Rightarrow> GamePhase option \<Rightarrow> TrackerItem list" where
  "questTrackerItems questResults ph =
     map RoundCircle [1, 2, 3, 4, 5]
     @ (if showAssassination questResults ph then [Separator, AssassinationCircle] else [])"

section \<open>Human controls (components/HumanControls.tsx) and their handlers (pages/Game.tsx)\<close>

text \<open>
  The table local to \<^verbatim>\<open>HumanControls\<close>:
  \<^verbatim>\<open>const QUEST_SIZES: Record<number, number[]> = { 5: [2, 3, 2, 3, 3], 6: [2, 3, 4, 3, 4] };
  const requiredSize =
    QUEST_SIZES[gameState.player_count]?.[gameState.current_round - 1] || 2;\<close>
  \<^verbatim>\<open>|| 2\<close> replaces \<^verbatim>\<open>undefined\<close> and \<^verbatim>\<open>0\<close>.
\<close>

definition HC_QUEST_SIZES :: "int \<Rightarrow> int list option" where
  "HC_QUEST_SIZES playerCount =
     (if playerCount = 5 then Some [2, 3, 2, 3, 3]
      else if playerCount = 6 then Some [2, 3, 4, 3, 4]
      else None)"

definition requiredSize :: "GameState \<Rightarrow> int" where
  "requiredSize gs =
     (case HC_QUEST_SIZES (player_count gs) of
        None \<Rightarrow> 2
      | Some row \<Rightarrow>
          (case js_index row (current_round gs - 1) of
             None \<Rightarrow> 2
           | Some n \<Rightarrow> if n = 0 then 2 else n))"

text \<open>
  The confirm button of the team-selection panel, shown under
  \<^verbatim>\<open>actionType === 'team_selection'\<close>:
  \<^verbatim>\<open><Button onClick={() => { onTeamSelect(discussionInput.trim() || undefined); ... }}
          disabled={selectedPlayers.length !== requiredSize}>\<close>
  and the handler it reaches in \<^verbatim>\<open>Game\<close>:
  \<^verbatim>\<open>handleTeamSelect = (speech) => {
      if (id && selectedPlayers.length > 0) { sendTeamSelect(id, selectedPlayers, speech); clearSelection(); } }\<close>
  \<^verbatim>\<open>Game\<close> renders the controls under
  \<^verbatim>\<open>isHumanTurn = gameState.waiting_for_human && humanSeat !== null\<close>.
  \<open>clickTeamSubmit\<close> is the team sent over the socket by a click, \<open>None\<close> when there is
  no enabled confirm button or nothing is sent. \<open>gid\<close> is the route parameter \<^verbatim>\<open>id\<close>,
  \<open>hs\<close> the store's \<^verbatim>\<open>humanSeat\<close>.
\<close>

definition teamSubmitDisabled :: "GameState \<Rightarrow> int list \<Rightarrow> bool" where
  "teamSubmitDisabled gs selected \<longleftrightarrow> int (length selected) \<noteq> requiredSize gs"

definition handleTeamSelect :: "string option \<Rightarrow> int list \<Rightarrow> int list option" where
  "handleTeamSelect gid selected =
     (if truthy_str gid \<and> length selected > 0 then Some selected else None)"

definition clickTeamSubmit ::
  "string option \<Rightarrow> GameState \<Rightarrow> int option \<Rightarrow> int list \<Rightarrow> int list option" where
  "clickTeamSubmit gid gs hs selected =
     (if waiting_for_human gs \<and> hs \<noteq> None
         \<and> human_action_type gs = Some act_team_selection \<and> \<not> teamSubmitDisabled gs selected
      then handleTeamSelect gid selected else None)"

text \<open>
  The rule-table team size for a player count and a round: entry \<open>round - 1\<close> of the
  row of \<open>QUEST_SIZES\<close> (the complete table, in \<^verbatim>\<open>QuestTracker.tsx\<close>).
\<close>

definition ruleTableSize :: "int \<Rightarrow> int \<Rightarrow> int option" where
  "ruleTableSize playerCount rnd =
     (case QUEST_SIZES playerCount of None \<Rightarrow> None | Some row \<Rightarrow> js_index row (rnd - 1))"

section \<open>Player count controls (pages/Home.tsx)\<close>

text \<open>
  \<^verbatim>\<open>const [playerCount, setPlayerCount] = useState(5);\<close>
  \<^verbatim>\<open><Button onClick={() => setPlayerCount((c) => Math.max(5, c - 1))} disabled={playerCount <= 5}>\<close>
  \<^verbatim>\<open><Button onClick={() => setPlayerCount((c) => Math.min(6, c + 1))} disabled={playerCount >= 6}>\<close>
  \<^verbatim>\<open>handleCreateGame\<close> sends \<^verbatim>\<open>player_count: playerCount\<close>.
\<close>

datatype HomeEvent = ClickMinus | ClickPlus

fun homeStep :: "int \<Rightarrow> HomeEvent \<Rightarrow> int" where
  "homeStep playerCount ClickMinus =
     (if playerCount \<le> 5 then playerCount else max 5 (playerCount - 1))"
| "homeStep playerCount ClickPlus =
     (if playerCount \<ge> 6 then playerCount else min 6 (playerCount + 1))"

definition homePlayerCount :: "HomeEvent list \<Rightarrow> int" where
  "homePlayerCount evs = foldl homeStep 5 evs"

section \<open>Role display (components/GameBoard.tsx, components/PlayerCard.tsx)\<close>

text \<open>
  The prop \<^verbatim>\<open>humanSeat?: number | null\<close> of \<^verbatim>\<open>GameBoard\<close> has three kinds of value: the
  prop is left out (\<^verbatim>\<open>undefined\<close>, as \<^verbatim>\<open>Replay\<close> does), it is \<^verbatim>\<open>null\<close> (the store's
  value while no human player is known), or it is a seat.
\<close>

datatype SeatProp = Undefined | Null | Seat int

text \<open>
  \<^verbatim>\<open>// Show roles: game finished, or has human player, or god mode enabled
  const showRoles = gameState.status === 'finished' || humanSeat !== null || godMode;\<close>
\<close>

definition showRoles :: "GameState \<Rightarrow> SeatProp \<Rightarrow> bool \<Rightarrow> bool" where
  "showRoles gs hs gm \<longleftrightarrow> status gs = finished \<or> hs \<noteq> Null \<or> gm"

text \<open>
  The badges of a player card. Both layouts render the same two conditional badges:
  \<^verbatim>\<open>{showRole && player.role && (
      <Badge variant={player.team === 'evil' ? 'destructive' : 'default'}>
        {ROLE_NAMES[player.role as Role] || player.role}</Badge>)}
  {showRole && player.team && !player.role && (
      <Badge variant={player.team === 'evil' ? 'destructive' : 'default'}>
        {player.team === 'good' ? (the word for good) : (the word for evil)}</Badge>)}\<close>
  \<^verbatim>\<open>ROLE_NAMES\<close> comes from \<^verbatim>\<open>lib/utils\<close> and is a parameter here.
\<close>

datatype BadgeVariant = destructive | default_variant

datatype BadgeText = RoleText string | TeamText Team

record Badge =
  variant :: BadgeVariant
  text_of :: BadgeText

definition badgeVariant :: "Player \<Rightarrow> BadgeVariant" where
  "badgeVariant p = (if team p = Some evil then destructive else default_variant)"

definition roleLabel :: "(string \<Rightarrow> string option) \<Rightarrow> string \<Rightarrow> string" where
  "roleLabel ROLE_NAMES r =
     (case ROLE_NAMES r of Some n \<Rightarrow> if n \<noteq> [] then n else r | None \<Rightarrow> r)"

definition playerCardBadges :: "(string \<Rightarrow> string option) \<Rightarrow> bool \<Rightarrow> Player \<Rightarrow> Badge list" where
  "playerCardBadges ROLE_NAMES showRole p =
     (case role p of
        Some r \<Rightarrow>
          if showRole \<and> r \<noteq> []
          then [\<lparr>variant = badgeVariant p, text_of = RoleText (roleLabel ROLE_NAMES r)\<rparr>]
          else []
      | None \<Rightarrow> [])
     @ (case team p of
          Some t \<Rightarrow>
            if showRole \<and> \<not> truthy_str (role p)
            then [\<lparr>variant = badgeVariant p, text_of = TeamText t\<rparr>]
            else []
        | None \<Rightarrow> [])"

text \<open>
  The player list of the board:
  \<^verbatim>\<open>gameState.players.map((player) => (
      <PlayerCard player={{ ...player,
                  is_on_quest: gameState.proposed_team.includes(player.seat),
                  is_leader: player.seat === gameState.current_leader }}
                  showRole={showRoles} ... />))\<close>
  The result lists, seat by seat, the badges of the card.
\<close>

definition boardPlayer :: "GameState \<Rightarrow> Player \<Rightarrow> Player" where
  "boardPlayer gs player =
     player\<lparr>is_on_quest := seat player \<in> set (proposed_team gs),
            is_leader := (seat player = current_leader gs)\<rparr>"



section \<open>Quest vote controls (components/HumanControls.tsx, pages/Game.tsx)\<close>

text \<open>
  \<^verbatim>\<open>const player = humanSeat !== null ? gameState.players[humanSeat] : null;
  const isEvil = player?.team === 'evil';\<close>
  In \<^verbatim>\<open>HumanControls\<close> the prop is \<^verbatim>\<open>humanSeat: number | null\<close>, here \<open>None\<close> for
  \<^verbatim>\<open>null\<close>.
\<close>

definition hcPlayer :: "GameState \<Rightarrow> int option \<Rightarrow> Player option" where
  "hcPlayer gs hs = (case hs of None \<Rightarrow> None | Some s \<Rightarrow> js_index (players gs) s)"

definition isEvil :: "GameState \<Rightarrow> int option \<Rightarrow> bool" where
  "isEvil gs hs = (case hcPlayer gs hs of None \<Rightarrow> False | Some p \<Rightarrow> team p = Some evil)"

text \<open>
  The quest panel, shown under \<^verbatim>\<open>actionType === 'quest'\<close>. For an evil player it has
  two buttons, \<^verbatim>\<open>onClick={() => onQuestVote(true)}\<close> and
  \<^verbatim>\<open>onClick={() => onQuestVote(false)}\<close>; otherwise it has the single button
  \<^verbatim>\<open>onClick={() => onQuestVote(true)}\<close>. \<open>questButtons\<close> lists, in order, the argument
  each button passes to \<^verbatim>\<open>onQuestVote\<close>.
\<close>

definition questButtons :: "GameState \<Rightarrow> int option \<Rightarrow> bool list" where
  "questButtons gs hs =
     (if human_action_type gs = Some act_quest
      then (if isEvil gs hs then [True, False] else [True])
      else [])"

text \<open>
  \<^verbatim>\<open>handleQuestVote = (success) => { if (id) { sendQuestVote(id, success); } }\<close>
  \<^verbatim>\<open>Game\<close> renders the controls under
  \<^verbatim>\<open>isHumanTurn = gameState.waiting_for_human && humanSeat !== null\<close>.
  \<open>clickQuestButton\<close> is the vote sent by a click on button number \<open>i\<close> of the panel,
  \<open>None\<close> when there is no such button or nothing is sent.
\<close>

definition handleQuestVote :: "string option \<Rightarrow> bool \<Rightarrow> bool option" where
  "handleQuestVote gid success = (if truthy_str gid then Some success else None)"

definition clickQuestButton :: "string option \<Rightarrow> GameState \<Rightarrow> int option \<Rightarrow> nat \<Rightarrow> bool option" where
  "clickQuestButton gid gs hs i =
     (if waiting_for_human gs \<and> hs \<noteq> None \<and> i < length (questButtons gs hs)
      then handleQuestVote gid (questButtons gs hs ! i)
      else None)"

text \<open>
  A sequence of interactions: each one is a click on some button number, at the game
  state the page shows at that moment. The votes sent, in order:
\<close>

fun questVotesSent :: "string option \<Rightarrow> int option \<Rightarrow> (GameState \<times> nat) list \<Rightarrow> bool list" where
  "questVotesSent gid hs [] = []"
| "questVotesSent gid hs ((gs, i) # rest) =
     (case clickQuestButton gid gs hs i of
        None \<Rightarrow> questVotesSent gid hs rest
      | Some v \<Rightarrow> v # questVotesSent gid hs rest)"

section \<open>Round filtering of the discussion panel (components/Discussion.tsx)\<close>

text \<open>
  The three arrays the panel filters are props: the component holds references to arrays
  that the game state owns. An array store lists the arrays of one element type; a
  reference is a position in the store, so two references are the same array exactly when
  they are equal, and a write through one is seen through the other. A new array gets the
  next free position. A position outside the store is not a reference (JavaScript has no
  dangling references), and an operation on it is \<open>None\<close>.
\<close>

type_synonym 'a arrays = "'a list list"

text \<open>
  \<^verbatim>\<open>Array.prototype.filter(callbackfn)\<close>, as ECMAScript defines it: read the length of the
  receiver once, create a new array \<open>A\<close>, then for \<open>k = 0, ..., len - 1\<close> read element \<open>k\<close> of
  the receiver, call the test on it and, when it passes, append the element to \<open>A\<close>;
  return \<open>A\<close>. \<open>filter_from\<close> is the loop, with \<open>n\<close> the number of indices still to visit;
  every step reads the receiver \<open>src\<close> from the store and writes to \<open>dst\<close> in the store.
  The tests that the panel passes only read a field of the element.
\<close>

fun filter_from :: "('a \<Rightarrow> bool) \<Rightarrow> nat \<Rightarrow> nat \<Rightarrow> nat \<Rightarrow> nat \<Rightarrow> 'a arrays \<Rightarrow> 'a arrays" where
  "filter_from test src dst k 0 h = h"
| "filter_from test src dst k (Suc n) h =
     (let kValue = (h ! src) ! k
      in filter_from test src dst (Suc k) n
           (if test kValue then h[dst := (h ! dst) @ [kValue]] else h))"

definition js_filter :: "('a \<Rightarrow> bool) \<Rightarrow> nat \<Rightarrow> 'a arrays \<Rightarrow> (nat \<times> 'a arrays) option" where
  "js_filter test src h =
     (if src < length h
      then (let len = length (h ! src); A = length h
            in Some (A, filter_from test src A 0 len (h @ [[]])))
      else None)"

text \<open>
  \<^verbatim>\<open>Array.prototype.find(predicate)\<close>: for \<open>k = 0, ..., len - 1\<close> read element \<open>k\<close> and
  return it when it passes the test; \<^verbatim>\<open>undefined\<close> when none does. It writes nothing.
\<close>

fun find_from :: "('a \<Rightarrow> bool) \<Rightarrow> nat \<Rightarrow> nat \<Rightarrow> nat \<Rightarrow> 'a arrays \<Rightarrow> 'a option" where
  "find_from test src k 0 h = None"
| "find_from test src k (Suc n) h =
     (let kValue = (h ! src) ! k
      in if test kValue then Some kValue else find_from test src (Suc k) n h)"

definition js_find :: "('a \<Rightarrow> bool) \<Rightarrow> nat \<Rightarrow> 'a arrays \<Rightarrow> 'a option option" where
  "js_find test src h =
     (if src < length h then Some (find_from test src 0 (length (h ! src)) h) else None)"

text \<open>\<^verbatim>\<open>(msg.round || 1)\<close>: a missing round and the round 0 count as round 1.\<close>

definition msgRound :: "DiscussionMessage \<Rightarrow> int" where
  "msgRound msg = (case m_round msg of None \<Rightarrow> 1 | Some r \<Rightarrow> if r = 0 then 1 else r)"

text \<open>
  The memory the panel works on: one store per element type. The props hold references
  into it, and so does the view for the two new arrays.
\<close>

record DiscussionHeap =
  msgArrays :: "DiscussionMessage arrays"
  voteArrays :: "VoteResult arrays"
  questArrays :: "QuestResult arrays"

record DiscussionProps =
  messages :: nat
  votes :: nat
  questResults :: nat
  displayRound :: int

record DiscussionView =
  filteredMessages :: nat
  filteredVotes :: nat
  questResult :: "QuestResult option"

text \<open>
  \<^verbatim>\<open>const filteredMessages = useMemo(() =>
      messages.filter((msg) => (msg.round || 1) === displayRound), [messages, displayRound]);
  const filteredVotes = useMemo(() =>
      votes.filter((vote) => vote.round === displayRound), [votes, displayRound]);
  const questResult = useMemo(() =>
      questResults.find((q) => q.round === displayRound), [questResults, displayRound]);\<close>
  \<open>discussionView\<close> runs the three computations in this order on the memory and returns
  the view with the memory as the computations leave it.
\<close>

definition discussionView ::
  "DiscussionProps \<Rightarrow> DiscussionHeap \<Rightarrow> (DiscussionView \<times> DiscussionHeap) option" where
  "discussionView props h =
     (case js_filter (\<lambda>msg. msgRound msg = displayRound props) (messages props) (msgArrays h) of
        None \<Rightarrow> None
      | Some (fm, ms) \<Rightarrow>
     (case js_filter (\<lambda>vote. v_round vote = displayRound props) (votes props) (voteArrays h) of
        None \<Rightarrow> None
      | Some (fv, vs) \<Rightarrow>
     (case js_find (\<lambda>q. q_round q = displayRound props) (questResults props) (questArrays h) of
        None \<Rightarrow> None
      | Some qr \<Rightarrow>
          Some (\<lparr>filteredMessages = fm, filteredVotes = fv, questResult = qr\<rparr>,
                h\<lparr>msgArrays := ms, voteArrays := vs\<rparr>))))"

section \<open>Storing a game state (stores/gameStore.ts)\<close>

text \<open>
  \<^verbatim>\<open>setGameState: (state) => set((currentState) => {
      // When in god mode, preserve player role information from existing state
      // because WebSocket updates don't include reveal_all data
      if (currentState.godMode && currentState.gameState && state.players) {
        const existingPlayers = currentState.gameState.players;
        const mergedPlayers = state.players.map((player) => {
          const existingPlayer = existingPlayers.find((p) => p.seat === player.seat);
          // Preserve role and team if they exist in current state but not in new state
          if (existingPlayer && existingPlayer.role && !player.role) {
            return { ...player, role: existingPlayer.role, team: existingPlayer.team };
          }
          return player;
        });
        return { gameState: { ...state, players: mergedPlayers } };
      }
      return { gameState: state };
    })\<close>
  \<^verbatim>\<open>state.players\<close> is an array, which is truthy also when empty. zustand's \<^verbatim>\<open>set\<close>
  merges the returned partial state into the store (\<open>store\<close> below is the source's
  \<^verbatim>\<open>currentState\<close>).
\<close>

definition mergePlayer :: "Player list \<Rightarrow> Player \<Rightarrow> Player" where
  "mergePlayer existingPlayers player =
     (case find (\<lambda>p. seat p = seat player) existingPlayers of
        Some existingPlayer \<Rightarrow>
          if truthy_str (role existingPlayer) \<and> \<not> truthy_str (role player)
          then player\<lparr>role := role existingPlayer, team := team existingPlayer\<rparr>
          else player
      | None \<Rightarrow> player)"

definition setGameState :: "GameState \<Rightarrow> GameStore \<Rightarrow> GameStore" where
  "setGameState state store =
     (case gameState store of
        Some existing \<Rightarrow>
          if godMode store
          then store\<lparr>gameState :=
                 Some (state\<lparr>players := map (mergePlayer (players existing)) (players state)\<rparr>)\<rparr>
          else store\<lparr>gameState := Some state\<rparr>
      | None \<Rightarrow> store\<lparr>gameState := Some state\<rparr>)"

section \<open>The phase state machine of the match engine\<close>

text \<open>
  Modelled from the spec: the match engine (\<^verbatim>\<open>server/game/engine.py\<close>, \<^verbatim>\<open>state.py\<close>,
  \<^verbatim>\<open>rules.py\<close>) is not among the sources; the client only displays
  \<^verbatim>\<open>{gameState.vote_attempt}/5\<close>. The definitions of this section follow the spec's
  data model (section 3) and its phase state machine (section 4.3).
\<close>

datatype Role = Merlin | LoyalServant | Assassin | Minion

fun teamOf :: "Role \<Rightarrow> Team" where
  "teamOf Merlin = good"
| "teamOf LoyalServant = good"
| "teamOf Assassin = evil"
| "teamOf Minion = evil"

text \<open>
  Modelled from the spec: the Match of section 3, with the fields the state machine
  reads and writes: phase, round number, leader seat, vote attempt, proposed team, the
  resolved success flags of the quest rounds in order, the winner, and the roles by seat.
\<close>

record Match =
  mt_phase :: GamePhase
  mt_round :: nat
  mt_leader :: nat
  mt_attempt :: nat
  mt_player_count :: nat
  mt_team :: "nat list"
  mt_results :: "bool list"
  mt_winner :: "Team option"
  mt_roles :: "Role list"

text \<open>
  Modelled from the spec: the decisions that the supervisor feeds into the state machine,
  one kind per phase: the assigned roles, the delivery of the knowledge grants, the
  leader's proposed team, the closing of the discussion window, the team votes of all
  players by seat, the quest votes of the team members in team order (\<open>True\<close> is
  success), the closing of the assassination discussion, and the assassin's target.
\<close>

datatype Decision =
    AssignRoles "Role list"
  | DeliverKnowledge
  | ProposeTeam "nat list"
  | CloseDiscussion
  | TeamVotes "bool list"
  | QuestVotes "bool list"
  | CloseAssassinationDiscussion
  | Assassinate nat

text \<open>
  Modelled from the spec: match creation. ``Configuration inputs: player count (5--10)
  ... invalid configuration fails match creation.'' A new match is in
  \<open>role_assignment\<close>, round 1, attempt 1; the first leader is seat 0, as in the spec's
  example scenario.
\<close>

definition createMatch :: "nat \<Rightarrow> Match option" where
  "createMatch n =
     (if 5 \<le> n \<and> n \<le> 10
      then Some \<lparr>mt_phase = role_assignment, mt_round = 1, mt_leader = 0, mt_attempt = 1,
                 mt_player_count = n, mt_team = [], mt_results = [], mt_winner = None,
                 mt_roles = []\<rparr>
      else None)"

text \<open>
  Modelled from the spec: ``seat rotates by +1 mod player-count''; ``approved iff strictly
  more than half of approve votes''; ``fail threshold (normally 1, except round 4 with
  at least 7 players where threshold is 2)''.
\<close>

definition rotateLeader :: "Match \<Rightarrow> nat" where
  "rotateLeader m = (mt_leader m + 1) mod mt_player_count m"

definition voteApproved :: "Match \<Rightarrow> bool list \<Rightarrow> bool" where
  "voteApproved m vs \<longleftrightarrow> 2 * length (filter (\<lambda>v. v) vs) > mt_player_count m"

definition failThreshold :: "Match \<Rightarrow> nat" where
  "failThreshold m = (if mt_round m = 4 \<and> mt_player_count m \<ge> 7 then 2 else 1)"

text \<open>
  Modelled from the spec: a quest vote is legal when it is success or its member is
  evil (``non-evil members are constrained to submit success only'').
\<close>

definition questVotesLegal :: "Match \<Rightarrow> bool list \<Rightarrow> bool" where
  "questVotesLegal m qs \<longleftrightarrow>
     length qs = length (mt_team m)
     \<and> list_all (\<lambda>(v, s). v \<or> teamOf (mt_roles m ! s) = evil) (zip qs (mt_team m))"

text \<open>
  Modelled from the spec: one transition of section 4.3. \<open>None\<close> is a rejected decision
  (wrong phase, or an input-validation failure); the match is then unchanged.
  On a rejected team vote: ``increment vote attempt; if attempt count exceeds 5, Evil wins
  immediately by rejection-exhaustion (terminal, winner=evil); otherwise rotate leader and
  return to team_selection for the same round with a fresh team proposal.''
  After a quest: ``reset vote attempt to 1 for the next round. If cumulative failed rounds
  reach 3, Evil wins immediately (terminal). Else if cumulative succeeded rounds reach 3,
  transition to assassination_discussion. Else advance round number, rotate leader, return
  to team_selection.'' \<open>game_over\<close> is ``terminal; no further transitions''.
\<close>

fun step :: "Match \<Rightarrow> Decision \<Rightarrow> Match option" where
  "step m (AssignRoles rs) =
     (if mt_phase m = role_assignment \<and> length rs = mt_player_count m
      then Some (m\<lparr>mt_roles := rs, mt_phase := night_phase\<rparr>) else None)"
| "step m DeliverKnowledge =
     (if mt_phase m = night_phase then Some (m\<lparr>mt_phase := team_selection\<rparr>) else None)"
| "step m (ProposeTeam t) =
     (if mt_phase m = team_selection
         \<and> ruleTableSize (int (mt_player_count m)) (int (mt_round m)) = Some (int (length t))
         \<and> distinct t \<and> (\<forall>s \<in> set t. s < mt_player_count m)
      then Some (m\<lparr>mt_team := t, mt_phase := discussion\<rparr>) else None)"
| "step m CloseDiscussion =
     (if mt_phase m = discussion then Some (m\<lparr>mt_phase := team_vote\<rparr>) else None)"
| "step m (TeamVotes vs) =
     (if mt_phase m = team_vote \<and> length vs = mt_player_count m
      then (if voteApproved m vs then Some (m\<lparr>mt_phase := quest_execution\<rparr>)
            else (if mt_attempt m + 1 > 5
                  then Some (m\<lparr>mt_attempt := mt_attempt m + 1, mt_phase := game_over,
                               mt_winner := Some evil\<rparr>)
                  else Some (m\<lparr>mt_attempt := mt_attempt m + 1, mt_leader := rotateLeader m,
                               mt_team := [], mt_phase := team_selection\<rparr>)))
      else None)"
| "step m (QuestVotes qs) =
     (if mt_phase m = quest_execution \<and> questVotesLegal m qs
      then (let succeeded = \<not> (length (filter (\<lambda>v. \<not> v) qs) \<ge> failThreshold m);
                results = mt_results m @ [succeeded];
                m' = m\<lparr>mt_results := results, mt_attempt := 1\<rparr>
            in if length (filter (\<lambda>r. \<not> r) results) \<ge> 3
               then Some (m'\<lparr>mt_phase := game_over, mt_winner := Some evil\<rparr>)
               else if length (filter (\<lambda>r. r) results) \<ge> 3
               then Some (m'\<lparr>mt_phase := assassination_discussion\<rparr>)
               else Some (m'\<lparr>mt_round := mt_round m + 1, mt_leader := rotateLeader m,
                             mt_team := [], mt_phase := team_selection\<rparr>))
      else None)"
| "step m CloseAssassinationDiscussion =
     (if mt_phase m = assassination_discussion then Some (m\<lparr>mt_phase := assassination\<rparr>)
      else None)"
| "step m (Assassinate target) =
     (if mt_phase m = assassination \<and> target < mt_player_count m
      then Some (m\<lparr>mt_phase := game_over,
                   mt_winner := Some (if mt_roles m ! target = Merlin then evil else good)\<rparr>)
      else None)"

text \<open>
  Modelled from the spec: the supervisor applies the decisions in arrival order; a
  rejected decision leaves the decision point open and the match as it is.
\<close>

fun run :: "Match \<Rightarrow> Decision list \<Rightarrow> Match" where
  "run m [] = m"
| "run m (d # ds) = (case step m d of None \<Rightarrow> run m ds | Some m' \<Rightarrow> run m' ds)"

definition attemptInv :: "Match \<Rightarrow> bool" where
  "attemptInv m \<longleftrightarrow> (mt_phase m \<noteq> game_over \<longrightarrow> 1 \<le> mt_attempt m \<and> mt_attempt m \<le> 5)"

section \<open>Sample data\<close>

text \<open>Short names for the players and game states that the worked examples use.\<close>

abbreviation samplePlayer :: "int \<Rightarrow> string option \<Rightarrow> Team option \<Rightarrow> Player" where
  "samplePlayer s r t \<equiv>
     \<lparr>seat = s, name = ''P'', is_human = False, role = r, team = t, model_name = Some ''m'',
      is_on_quest = False, is_leader = False\<rparr>"

abbreviation sampleGame :: "int \<Rightarrow> Player list \<Rightarrow> GameState" where
  "sampleGame rnd ps \<equiv>
     \<lparr>game_id = ''g1'', status = in_progress, phase = team_vote, current_round = rnd,
      current_leader = 0, vote_attempt = 1, player_count = 5, players = ps,
      proposed_team = [0, 1], quest_results = [], vote_history = [], discussion_history = [],
      assassination_discussion_history = None, assassinated_player = None, winner = None,
      waiting_for_human = False, human_action_type = None\<rparr>"

abbreviation selectionGame :: "int \<Rightarrow> int \<Rightarrow> GameState" where
  "selectionGame n rnd \<equiv>
     \<lparr>game_id = ''g1'', status = in_progress, phase = team_selection, current_round = rnd,
      current_leader = 0, vote_attempt = 1, player_count = n, players = [],
      proposed_team = [], quest_results = [], vote_history = [], discussion_history = [],
      assassination_discussion_history = None, assassinated_player = None, winner = None,
      waiting_for_human = True, human_action_type = Some act_team_selection\<rparr>"

abbreviation questGame :: "Player list \<Rightarrow> GameState" where
  "questGame ps \<equiv>
     \<lparr>game_id = ''g1'', status = in_progress, phase = quest_execution, current_round = 1,
      current_leader = 0, vote_attempt = 1, player_count = 5, players = ps,
      proposed_team = [0, 1], quest_results = [], vote_history = [], discussion_history = [],
      assassination_discussion_history = None, assassinated_player = None, winner = None,
      waiting_for_human = True, human_action_type = Some act_quest\<rparr>"

abbreviation sampleQuest :: "int \<Rightarrow> bool \<Rightarrow> QuestResult" where
  "sampleQuest rnd ok \<equiv>
     \<lparr>q_round = rnd, q_success = Some ok, q_fail_votes = (if ok then 0 else 1),
      q_team_members = [0, 1], q_quest_votes = []\<rparr>"

abbreviation sampleMsg :: "int \<Rightarrow> int option \<Rightarrow> DiscussionMessage" where
  "sampleMsg s r \<equiv>
     \<lparr>m_seat = s, m_player_name = ''P'', m_content = ''hello'', m_timestamp = ''t'',
      m_round = r, m_attempt = Some 1\<rparr>"

abbreviation sampleVote :: "int \<Rightarrow> int \<Rightarrow> bool \<Rightarrow> VoteResult" where
  "sampleVote r a ok \<equiv>
     \<lparr>v_round = r, v_attempt = a, v_votes = [(0, ok), (1, True)], v_approved = ok\<rparr>"

abbreviation sampleHeap :: DiscussionHeap where
  "sampleHeap \<equiv>
     \<lparr>msgArrays = [[sampleMsg 0 (Some 1), sampleMsg 1 (Some 2), sampleMsg 2 None,
                    sampleMsg 3 (Some 0)]],
      voteArrays = [[], [sampleVote 1 1 False, sampleVote 1 2 True, sampleVote 2 1 True]],
      questArrays = [[sampleQuest 2 False, sampleQuest 1 True, sampleQuest 1 False]]\<rparr>"

abbreviation sampleStore :: "bool \<Rightarrow> GameState option \<Rightarrow> GameStore" where
  "sampleStore gm gs \<equiv>
     \<lparr>connected = True, gameState = gs, humanSeat = None, godMode = gm, selectedPlayers = [2]\<rparr>"

abbreviation sampleRoles :: "Role list" where
  "sampleRoles \<equiv> [Merlin, LoyalServant, LoyalServant, Assassin, Minion]"

abbreviation sampleMatch :: "GamePhase \<Rightarrow> nat \<Rightarrow> nat \<Rightarrow> nat list \<Rightarrow> Role list \<Rightarrow> Match" where
  "sampleMatch ph leader attempt t rs \<equiv>
     \<lparr>mt_phase = ph, mt_round = 1, mt_leader = leader, mt_attempt = attempt,
      mt_player_count = 5, mt_team = t, mt_results = [], mt_winner = None, mt_roles = rs\<rparr>"

abbreviation rejectedProposal :: "Decision list" where
  "rejectedProposal \<equiv>
     [ProposeTeam [0, 1], CloseDiscussion, TeamVotes [True, True, False, False, False]]"

section \<open>Selection toggling\<close>

lemma toggle_list_member: "k \<in> set s \<Longrightarrow> toggle_list k s = filter (\<lambda>x. x \<noteq> k) s"
  by (simp add: toggle_list_def)

lemma toggle_list_fresh: "k \<notin> set s \<Longrightarrow> toggle_list k s = s @ [k]"
  by (simp add: toggle_list_def)

lemma set_toggle_list:
  "set (toggle_list k s) = (if k \<in> set s then set s - {k} else insert k (set s))"
  by (auto simp: toggle_list_def)

text \<open>
  Claim C9. For every selection list \<open>s\<close> and seat \<open>k\<close>, \<open>togglePlayerSelection\<close> removes
  \<open>k\<close> from \<open>s\<close> when \<open>k\<close> is a member (filtering it out) and appends \<open>k\<close> otherwise; the
  membership of every other seat is unchanged; toggling the same seat twice gives a
  selection with exactly the seats of \<open>s\<close>. Nothing else in the store changes.
\<close>

theorem togglePlayerSelection_toggles:
  "selectedPlayers (togglePlayerSelection k st) =
     (if k \<in> set (selectedPlayers st) then filter (\<lambda>x. x \<noteq> k) (selectedPlayers st)
      else selectedPlayers st @ [k])
   \<and> (k \<in> set (selectedPlayers (togglePlayerSelection k st)) \<longleftrightarrow> k \<notin> set (selectedPlayers st))
   \<and> (\<forall>j. j \<noteq> k \<longrightarrow>
        (j \<in> set (selectedPlayers (togglePlayerSelection k st)) \<longleftrightarrow> j \<in> set (selectedPlayers st)))
   \<and> set (selectedPlayers (togglePlayerSelection k (togglePlayerSelection k st)))
       = set (selectedPlayers st)
   \<and> togglePlayerSelection k st = st\<lparr>selectedPlayers := selectedPlayers (togglePlayerSelection k st)\<rparr>"
  by (auto simp: togglePlayerSelection_def set_toggle_list) (auto simp: toggle_list_def)

theorem togglePlayerSelection_toggles_witness:
  "selectedPlayers (togglePlayerSelection 2 ((sampleStore False None)\<lparr>selectedPlayers := [1, 2, 3]\<rparr>))
     = [1, 3]
   \<and> selectedPlayers (togglePlayerSelection 4 ((sampleStore False None)\<lparr>selectedPlayers := [1, 2, 3]\<rparr>))
     = [1, 2, 3, 4]
   \<and> selectedPlayers (togglePlayerSelection 4
        (togglePlayerSelection 4 ((sampleStore False None)\<lparr>selectedPlayers := [1, 2, 3]\<rparr>)))
     = [1, 2, 3]"
  using togglePlayerSelection_toggles [of 2 "(sampleStore False None)\<lparr>selectedPlayers := [1, 2, 3]\<rparr>"]
    togglePlayerSelection_toggles [of 4 "(sampleStore False None)\<lparr>selectedPlayers := [1, 2, 3]\<rparr>"]
  by (simp add: togglePlayerSelection_def toggle_list_def)

section \<open>Replay index bounds\<close>

lemma autoPlayEffect_index [simp]: "currentIndex (autoPlayEffect states st) = currentIndex st"
  by (simp add: autoPlayEffect_def)

lemma autoPlayEffect_inv:
  "0 \<le> currentIndex st \<Longrightarrow> currentIndex st < int (length states)
     \<Longrightarrow> replayInv states (autoPlayEffect states st)"
  by (simp add: replayInv_def autoPlayEffect_def)

lemma autoPlayEffect_stops:
  "currentIndex st \<ge> int (length states) - 1 \<Longrightarrow> \<not> playing (autoPlayEffect states st)"
  by (simp add: autoPlayEffect_def)

lemma handlePrev_bounds:
  "0 \<le> currentIndex (handlePrev st)
   \<and> (currentIndex st < n \<longrightarrow> 0 < n \<longrightarrow> currentIndex (handlePrev st) < n)"
  by (auto simp: handlePrev_def)

lemma handleNext_bounds:
  "currentIndex (handleNext states st) \<le> int (length states) - 1
   \<and> (states \<noteq> [] \<longrightarrow> 0 \<le> currentIndex st \<longrightarrow> 0 \<le> currentIndex (handleNext states st))"
  by (cases states) (auto simp: handleNext_def)

lemma replayStep_inv:
  assumes "states \<noteq> []" and "replayInv states st"
  shows "replayInv states (replayStep states st ev)"
proof -
  have lo: "0 \<le> currentIndex st" and hi: "currentIndex st < int (length states)"
    using assms(2) by (simp_all add: replayInv_def)
  show ?thesis
  proof (cases ev)
    case ClickPrev
    have "0 \<le> currentIndex (handlePrev st)"
      and "currentIndex (handlePrev st) < int (length states)"
      using lo hi handlePrev_bounds [of st "int (length states)"] by auto
    then show ?thesis using assms(2) ClickPrev by (simp add: autoPlayEffect_inv)
  next
    case ClickPlay
    have "currentIndex (togglePlaying st) = currentIndex st"
      by (simp add: togglePlaying_def)
    then show ?thesis using assms(2) ClickPlay lo hi by (simp add: autoPlayEffect_inv)
  next
    case ClickNext
    have "0 \<le> currentIndex (handleNext states st)"
      and "currentIndex (handleNext states st) < int (length states)"
      using assms(1) lo handleNext_bounds [of states st] by auto
    then show ?thesis using assms(2) ClickNext by (simp add: autoPlayEffect_inv)
  next
    case (ClickSeek index)
    have "currentIndex (handleSeek index st) = index"
      by (simp add: handleSeek_def)
    then show ?thesis using assms(2) ClickSeek by (simp add: autoPlayEffect_inv)
  next
    case TimerFires
    show ?thesis
    proof (cases "timerPending st")
      case True
      then have "currentIndex st < int (length states) - 1"
        using assms(2) by (simp add: replayInv_def)
      then have "0 \<le> currentIndex (timerCallback st)"
        and "currentIndex (timerCallback st) < int (length states)"
        using lo by (simp_all add: timerCallback_def)
      then show ?thesis using True TimerFires by (simp add: autoPlayEffect_inv)
    next
      case False
      then show ?thesis using assms(2) TimerFires by simp
    qed
  qed
qed

lemma replay_foldl_inv:
  "states \<noteq> [] \<Longrightarrow> replayInv states st \<Longrightarrow> replayInv states (foldl (replayStep states) st evs)"
  by (induction evs arbitrary: st) (simp_all add: replayStep_inv)

lemma replayRun_inv: "states \<noteq> [] \<Longrightarrow> replayInv states (replayRun states evs)"
  unfolding replayRun_def
  by (rule replay_foldl_inv, assumption, rule autoPlayEffect_inv)
     (simp_all add: replayInit_def)

text \<open>
  Claim C10. For every non-empty list of replay states and every sequence of navigation
  events (previous, play/pause, next, a click on the timeline, the auto-play timer
  firing), the index stays within bounds: \<open>handlePrev\<close> never gives an index below 0,
  \<open>handleNext\<close> never gives one past \<open>length - 1\<close>, the timer is pending only while the
  index is before the last state, auto-play is switched off at the last state, and
  \<open>states[currentIndex]\<close> is a state of the list.
\<close>

theorem replay_index_in_bounds:
  assumes "states \<noteq> []"
  shows "0 \<le> currentIndex (replayRun states evs)
       \<and> currentIndex (replayRun states evs) \<le> int (length states) - 1
       \<and> currentState states (replayRun states evs)
            = Some (states ! nat (currentIndex (replayRun states evs)))
       \<and> 0 \<le> currentIndex (handlePrev (replayRun states evs))
       \<and> currentIndex (handleNext states (replayRun states evs)) \<le> int (length states) - 1
       \<and> (timerPending (replayRun states evs) \<longrightarrow>
            currentIndex (timerCallback (replayRun states evs)) \<le> int (length states) - 1)
       \<and> (currentIndex (replayRun states evs) = int (length states) - 1 \<longrightarrow>
            \<not> playing (replayRun states evs) \<and> \<not> timerPending (replayRun states evs))"
proof -
  let ?st = "replayRun states evs"
  have inv: "replayInv states ?st" using assms by (rule replayRun_inv)
  have lo: "0 \<le> currentIndex ?st" and hi: "currentIndex ?st < int (length states)"
    and tm: "timerPending ?st \<longrightarrow> playing ?st \<and> currentIndex ?st < int (length states) - 1"
    using inv by (simp_all add: replayInv_def)
  have cur: "currentState states ?st = Some (states ! nat (currentIndex ?st))"
    using lo hi by (simp add: currentState_def js_index_def)
  have prev: "0 \<le> currentIndex (handlePrev ?st)"
    using handlePrev_bounds [of ?st 0] by simp
  have nxt: "currentIndex (handleNext states ?st) \<le> int (length states) - 1"
    using handleNext_bounds [of states ?st] by simp
  have tick: "timerPending ?st \<longrightarrow> currentIndex (timerCallback ?st) \<le> int (length states) - 1"
    using tm by (auto simp: timerCallback_def)
  have stop: "currentIndex ?st = int (length states) - 1 \<longrightarrow> \<not> playing ?st \<and> \<not> timerPending ?st"
    using inv by (auto simp: replayInv_def)
  show ?thesis using lo hi cur prev nxt tick stop by simp
qed


theorem replay_index_in_bounds_witness:
  "[''a'', ''b'', ''c''] \<noteq> []
   \<and> currentIndex (replayRun [''a'', ''b'', ''c'']
        [ClickPlay, TimerFires, TimerFires, TimerFires, ClickNext, ClickPrev, ClickPrev, ClickPrev]) = 0
   \<and> currentState [''a'', ''b'', ''c'']
        (replayRun [''a'', ''b'', ''c''] [ClickPlay, TimerFires, TimerFires, TimerFires, ClickNext])
       = Some ''c''
   \<and> \<not> playing (replayRun [''a'', ''b'', ''c''] [ClickPlay, TimerFires, TimerFires])"
  using replay_index_in_bounds [of "[''a'', ''b'', ''c'']"
      "[ClickPlay, TimerFires, TimerFires, TimerFires, ClickNext, ClickPrev, ClickPrev, ClickPrev]"]
    replay_index_in_bounds [of "[''a'', ''b'', ''c'']"
      "[ClickPlay, TimerFires, TimerFires, TimerFires, ClickNext]"]
    replay_index_in_bounds [of "[''a'', ''b'', ''c'']" "[ClickPlay, TimerFires, TimerFires]"]
  by (simp add: replayRun_def replayInit_def autoPlayEffect_def togglePlaying_def
      timerCallback_def handleNext_def handlePrev_def currentState_def js_index_def)

section \<open>Quest sizes and team submission\<close>

lemma QUEST_SIZES_in_range: "QUEST_SIZES pc \<noteq> None \<longleftrightarrow> 5 \<le> pc \<and> pc \<le> 10"
  by (auto simp: QUEST_SIZES_def)

lemma HC_QUEST_SIZES_eq: "HC_QUEST_SIZES pc = (if pc = 5 \<or> pc = 6 then QUEST_SIZES pc else None)"
  by (simp add: HC_QUEST_SIZES_def QUEST_SIZES_def)

lemma round_cases: "1 \<le> (r::int) \<Longrightarrow> r \<le> 5 \<Longrightarrow> r = 1 \<or> r = 2 \<or> r = 3 \<or> r = 4 \<or> r = 5"
  by arith

lemma requiredSize_rule_table:
  assumes "player_count gs = 5 \<or> player_count gs = 6"
    and "1 \<le> current_round gs" and "current_round gs \<le> 5"
  shows "ruleTableSize (player_count gs) (current_round gs) = Some (requiredSize gs)"
  using assms(1) round_cases [OF assms(2,3)]
  by (auto simp: ruleTableSize_def requiredSize_def QUEST_SIZES_def HC_QUEST_SIZES_def
      js_index_def)

lemma homeStep_range: "5 \<le> c \<and> c \<le> 6 \<Longrightarrow> 5 \<le> homeStep c ev \<and> homeStep c ev \<le> 6"
  by (cases ev) auto

lemma home_foldl_range: "5 \<le> c \<and> c \<le> 6 \<Longrightarrow> 5 \<le> foldl homeStep c evs \<and> foldl homeStep c evs \<le> 6"
proof (induction evs arbitrary: c)
  case Nil
  then show ?case by simp
next
  case (Cons ev evs)
  have "5 \<le> homeStep c ev \<and> homeStep c ev \<le> 6" using Cons.prems by (rule homeStep_range)
  then show ?case using Cons.IH by simp
qed

text \<open>
  Claim C3, as stated, fails: for 7 players in round 2 the rule table asks for 3 seats,
  the table of \<open>HumanControls\<close> has no row for 7 players, the required size falls back to 2,
  and a team of 2 is submitted.
\<close>

theorem team_size_seven_players_counterexample:
  "clickTeamSubmit (Some ''g1'') (selectionGame 7 2) (Some 0) [0, 1] = Some [0, 1]
   \<and> ruleTableSize 7 2 = Some 3"
  by (simp add: clickTeamSubmit_def teamSubmitDisabled_def requiredSize_def HC_QUEST_SIZES_def
      handleTeamSelect_def ruleTableSize_def QUEST_SIZES_def js_index_def)

text \<open>
  Claim C3, amended. For every player count in [5,6] (the counts that match creation
  offers) and every current round in [1,5], a human leader can submit a proposed team only
  when the number of selected seats equals the rule-table team size for that player count
  and round: the confirm button is disabled otherwise, and a click that sends a team sends
  the selection, of exactly that size.
\<close>

theorem team_submit_required_size:
  assumes "5 \<le> player_count gs" and "player_count gs \<le> 6"
    and "1 \<le> current_round gs" and "current_round gs \<le> 5"
  shows "(\<not> teamSubmitDisabled gs selected \<longleftrightarrow>
            ruleTableSize (player_count gs) (current_round gs) = Some (int (length selected)))
       \<and> (\<forall>t. clickTeamSubmit gid gs hs selected = Some t \<longrightarrow>
            t = selected
            \<and> ruleTableSize (player_count gs) (current_round gs) = Some (int (length t)))"
proof -
  have "player_count gs = 5 \<or> player_count gs = 6" using assms(1,2) by arith
  then have rt: "ruleTableSize (player_count gs) (current_round gs) = Some (requiredSize gs)"
    using assms(3,4) by (rule requiredSize_rule_table)
  have a: "\<not> teamSubmitDisabled gs selected \<longleftrightarrow>
      ruleTableSize (player_count gs) (current_round gs) = Some (int (length selected))"
    using rt by (auto simp: teamSubmitDisabled_def)
  have b: "\<forall>t. clickTeamSubmit gid gs hs selected = Some t \<longrightarrow>
      t = selected \<and> ruleTableSize (player_count gs) (current_round gs) = Some (int (length t))"
    using a by (auto simp: clickTeamSubmit_def handleTeamSelect_def split: if_splits)
  show ?thesis using a b by blast
qed

theorem team_submit_required_size_witness:
  "clickTeamSubmit (Some ''g1'') (selectionGame 6 3) (Some 0) [0, 1, 2, 4] = Some [0, 1, 2, 4]
   \<and> ruleTableSize 6 3 = Some 4
   \<and> teamSubmitDisabled (selectionGame 6 3) [0, 1, 2]
   \<and> clickTeamSubmit (Some ''g1'') (selectionGame 6 3) (Some 0) [0, 1, 2] = None"
  using team_submit_required_size [of "selectionGame 6 3" "[0, 1, 2, 4]" "Some ''g1''" "Some 0"]
    team_submit_required_size [of "selectionGame 6 3" "[0, 1, 2]" "Some ''g1''" "Some 0"]
  by (simp add: clickTeamSubmit_def teamSubmitDisabled_def requiredSize_def HC_QUEST_SIZES_def
      handleTeamSelect_def ruleTableSize_def QUEST_SIZES_def js_index_def)

section \<open>Rule-table lookup and player count\<close>

text \<open>
  Claim C4, as stated, fails: the lookup does not fail for a player count outside
  [5,10]. For 11 players \<open>QuestTracker\<close> answers with the 5-player row and
  \<open>HumanControls\<close> with the size 2.
\<close>

theorem lookup_eleven_players_counterexample:
  "\<not> (5 \<le> (11::int) \<and> (11::int) \<le> 10)
   \<and> questSizes 11 = Some [2, 3, 2, 3, 3]
   \<and> requiredSize (selectionGame 11 2) = 2"
  by (simp add: questSizes_def QUEST_SIZES_def requiredSize_def HC_QUEST_SIZES_def)

text \<open>
  Claim C4, amended. The rule-table lookup is a function of the player count that
  always returns a row: the row of the player count when it lies in [5,10], and the
  5-player row for every other player count; \<open>HumanControls\<close> uses the required size 2
  for every player count other than 5 and 6; and the player count that \<open>Home\<close> submits at
  match creation is always within [5,6], whatever the sequence of clicks on its two
  buttons.
\<close>

theorem lookup_falls_back_and_home_clamps:
  "(5 \<le> pc \<and> pc \<le> 10 \<longrightarrow> questSizes pc = QUEST_SIZES pc \<and> questSizes pc \<noteq> None)
   \<and> (\<not> (5 \<le> pc \<and> pc \<le> 10) \<longrightarrow> questSizes pc = Some [2, 3, 2, 3, 3])
   \<and> (player_count gs \<noteq> 5 \<and> player_count gs \<noteq> 6 \<longrightarrow> requiredSize gs = 2)
   \<and> 5 \<le> homePlayerCount evs \<and> homePlayerCount evs \<le> 6"
proof -
  have a: "5 \<le> pc \<and> pc \<le> 10 \<longrightarrow> questSizes pc = QUEST_SIZES pc \<and> questSizes pc \<noteq> None"
    using QUEST_SIZES_in_range [of pc] by (auto simp: questSizes_def)
  have b: "\<not> (5 \<le> pc \<and> pc \<le> 10) \<longrightarrow> questSizes pc = Some [2, 3, 2, 3, 3]"
  proof
    assume "\<not> (5 \<le> pc \<and> pc \<le> 10)"
    then have "QUEST_SIZES pc = None" using QUEST_SIZES_in_range [of pc] by blast
    moreover have "QUEST_SIZES 5 = Some [2, 3, 2, 3, 3]" by (simp add: QUEST_SIZES_def)
    ultimately show "questSizes pc = Some [2, 3, 2, 3, 3]" by (simp add: questSizes_def)
  qed
  have c: "player_count gs \<noteq> 5 \<and> player_count gs \<noteq> 6 \<longrightarrow> requiredSize gs = 2"
    by (simp add: requiredSize_def HC_QUEST_SIZES_def)
  have d: "5 \<le> homePlayerCount evs \<and> homePlayerCount evs \<le> 6"
    unfolding homePlayerCount_def by (rule home_foldl_range) simp
  show ?thesis using a b c d by blast
qed

theorem lookup_falls_back_and_home_clamps_witness:
  "(5 \<le> (8::int) \<and> (8::int) \<le> 10) \<and> questSizes 8 = Some [3, 4, 4, 5, 5]
   \<and> \<not> (5 \<le> (4::int) \<and> (4::int) \<le> 10) \<and> questSizes 4 = Some [2, 3, 2, 3, 3]
   \<and> requiredSize (selectionGame 8 4) = 2
   \<and> homePlayerCount [ClickPlus, ClickPlus, ClickPlus] = 6
   \<and> homePlayerCount [ClickPlus, ClickMinus, ClickMinus] = 5"
  using lookup_falls_back_and_home_clamps [of 8 "selectionGame 8 4"
      "[ClickPlus, ClickPlus, ClickPlus]"]
    lookup_falls_back_and_home_clamps [of 4 "selectionGame 8 4"
      "[ClickPlus, ClickMinus, ClickMinus]"]
  by (simp add: questSizes_def QUEST_SIZES_def requiredSize_def HC_QUEST_SIZES_def
      homePlayerCount_def)

section \<open>The assassination circle of the quest tracker\<close>

lemma goodWins_mset: "goodWins qs = size (filter_mset (\<lambda>q. q_success q = Some True) (mset qs))"
  by (simp add: goodWins_def flip: mset_filter)

lemma count_list_map_RoundCircle: "count_list (map RoundCircle rs) AssassinationCircle = 0"
  by (induction rs) simp_all

text \<open>
  Claim C5. For every list of quest results, the assassination circle is shown if and
  only if at least 3 quest results have \<open>success = true\<close>, or the phase is
  \<open>assassination_discussion\<close>, \<open>assassination\<close> or \<open>game_over\<close>. The count is over the
  whole list, so two lists with the same results in a different order give the same
  answer. When the circle is shown it is shown exactly once (and not at all otherwise).
\<close>

theorem assassination_shown_iff_three_successes:
  "(AssassinationCircle \<in> set (questTrackerItems qs ph) \<longleftrightarrow>
      3 \<le> size (filter_mset (\<lambda>q. q_success q = Some True) (mset qs))
      \<or> ph = Some assassination_discussion \<or> ph = Some assassination \<or> ph = Some game_over)
   \<and> (mset qs = mset qs' \<longrightarrow> questTrackerItems qs ph = questTrackerItems qs' ph)
   \<and> count_list (questTrackerItems qs ph) AssassinationCircle
       = (if showAssassination qs ph then 1 else 0)"
proof -
  have a: "AssassinationCircle \<in> set (questTrackerItems qs ph) \<longleftrightarrow> showAssassination qs ph"
    by (auto simp: questTrackerItems_def)
  have b: "showAssassination qs ph \<longleftrightarrow>
      3 \<le> size (filter_mset (\<lambda>q. q_success q = Some True) (mset qs))
      \<or> ph = Some assassination_discussion \<or> ph = Some assassination \<or> ph = Some game_over"
    by (simp add: showAssassination_def goodWins_mset)
  have c: "mset qs = mset qs' \<longrightarrow> questTrackerItems qs ph = questTrackerItems qs' ph"
    by (simp add: questTrackerItems_def showAssassination_def goodWins_mset)
  have d: "count_list (questTrackerItems qs ph) AssassinationCircle
       = (if showAssassination qs ph then 1 else 0)"
    by (simp add: questTrackerItems_def)
  show ?thesis using a b c d by simp
qed

theorem assassination_shown_iff_three_successes_witness:
  "mset [sampleQuest 1 True, sampleQuest 2 False, sampleQuest 3 True, sampleQuest 4 True]
     = mset [sampleQuest 2 False, sampleQuest 4 True, sampleQuest 3 True, sampleQuest 1 True]
   \<and> questTrackerItems
        [sampleQuest 2 False, sampleQuest 4 True, sampleQuest 3 True, sampleQuest 1 True]
        (Some quest_execution)
      = [RoundCircle 1, RoundCircle 2, RoundCircle 3, RoundCircle 4, RoundCircle 5,
         Separator, AssassinationCircle]
   \<and> questTrackerItems [sampleQuest 1 True, sampleQuest 2 False, sampleQuest 3 True]
        (Some team_selection)
      = [RoundCircle 1, RoundCircle 2, RoundCircle 3, RoundCircle 4, RoundCircle 5]"
  using assassination_shown_iff_three_successes [of
        "[sampleQuest 1 True, sampleQuest 2 False, sampleQuest 3 True, sampleQuest 4 True]"
        "Some quest_execution"
        "[sampleQuest 2 False, sampleQuest 4 True, sampleQuest 3 True, sampleQuest 1 True]"]
    assassination_shown_iff_three_successes [of
        "[sampleQuest 1 True, sampleQuest 2 False, sampleQuest 3 True]" "Some team_selection"
        "[sampleQuest 1 True, sampleQuest 2 False, sampleQuest 3 True]"]
  by (simp add: questTrackerItems_def showAssassination_def goodWins_def)

section \<open>Role display\<close>

lemma playerCardBadges_hidden [simp]: "playerCardBadges R False p = []"
  by (simp add: playerCardBadges_def split: option.splits)




lemma boardPlayer_role_team [simp]:
  "role (boardPlayer gs p) = role p" "team (boardPlayer gs p) = team p"
  "badgeVariant (boardPlayer gs p) = badgeVariant p"
  by (simp_all add: boardPlayer_def badgeVariant_def)

text \<open>
  A board rendered without the \<open>humanSeat\<close> prop (the replay page) has \<open>showRoles\<close>
  true, since \<^verbatim>\<open>undefined !== null\<close>.
\<close>

lemma showRoles_omitted_prop: "showRoles gs Undefined gm"
  by (simp add: showRoles_def)




section \<open>Quest votes of a good player\<close>

lemma isEvil_iff: "isEvil gs hs \<longleftrightarrow> (\<exists>p. hcPlayer gs hs = Some p \<and> team p = Some evil)"
  by (simp add: isEvil_def split: option.splits)

lemma questButtons_good: "\<not> isEvil gs hs \<Longrightarrow> set (questButtons gs hs) \<subseteq> {True}"
  by (auto simp: questButtons_def)

lemma clickQuestButton_good:
  assumes "\<not> isEvil gs hs" and "clickQuestButton gid gs hs i = Some v"
  shows "v = True"
proof -
  have "i < length (questButtons gs hs)" and "v = questButtons gs hs ! i"
    using assms(2) by (auto simp: clickQuestButton_def handleQuestVote_def split: if_splits)
  then have "v \<in> set (questButtons gs hs)" by simp
  then show ?thesis using questButtons_good [OF assms(1)] by blast
qed

lemma questVotesSent_good:
  "(\<forall>c \<in> set clicks. \<not> isEvil (fst c) hs) \<Longrightarrow> v \<in> set (questVotesSent gid hs clicks) \<Longrightarrow> v = True"
proof (induction clicks)
  case Nil
  then show ?case by simp
next
  case (Cons c clicks)
  obtain gs i where c: "c = (gs, i)" by (cases c)
  show ?case
  proof (cases "clickQuestButton gid gs hs i")
    case None
    then show ?thesis using Cons c by simp
  next
    case (Some w)
    have "w = True" using Cons.prems(1) c Some clickQuestButton_good [of gs hs gid i w] by simp
    then show ?thesis using Cons c Some by auto
  qed
qed

text \<open>
  Claim C2. For a human player whose team is not \<open>evil\<close>, every enabled quest control
  passes \<open>true\<close> to \<open>onQuestVote\<close>; a click that sends a fail vote happens only when the
  human player's record has team \<open>evil\<close>; and for every sequence of clicks made while the
  human player is not evil, every quest vote sent is success.
\<close>

theorem good_player_quest_vote_is_success:
  "((\<forall>p. hcPlayer gs hs = Some p \<longrightarrow> team p \<noteq> Some evil) \<longrightarrow> questButtons gs hs = [True] \<or> questButtons gs hs = [])
   \<and> (clickQuestButton gid gs hs i = Some False \<longrightarrow>
        (\<exists>p. hcPlayer gs hs = Some p \<and> team p = Some evil))
   \<and> ((\<forall>c \<in> set clicks. \<forall>p. hcPlayer (fst c) hs = Some p \<longrightarrow> team p \<noteq> Some evil) \<longrightarrow>
        (\<forall>v \<in> set (questVotesSent gid hs clicks). v = True))"
proof -
  have a: "(\<forall>p. hcPlayer gs hs = Some p \<longrightarrow> team p \<noteq> Some evil) \<longrightarrow>
      questButtons gs hs = [True] \<or> questButtons gs hs = []"
    by (auto simp: questButtons_def isEvil_iff)
  have b: "clickQuestButton gid gs hs i = Some False \<longrightarrow>
        (\<exists>p. hcPlayer gs hs = Some p \<and> team p = Some evil)"
    using clickQuestButton_good [of gs hs gid i False] by (auto simp: isEvil_iff)
  have c: "(\<forall>c \<in> set clicks. \<forall>p. hcPlayer (fst c) hs = Some p \<longrightarrow> team p \<noteq> Some evil) \<longrightarrow>
        (\<forall>v \<in> set (questVotesSent gid hs clicks). v = True)"
    using questVotesSent_good [of clicks hs _ gid] by (auto simp: isEvil_iff)
  show ?thesis using a b c by blast
qed

theorem good_player_quest_vote_is_success_witness:
  "questButtons
     (questGame [samplePlayer 0 (Some ''loyal_servant'') (Some good),
                 samplePlayer 1 (Some ''assassin'') (Some evil)]) (Some 0) = [True]
   \<and> clickQuestButton (Some ''g1'')
     (questGame [samplePlayer 0 (Some ''loyal_servant'') (Some good),
                 samplePlayer 1 (Some ''assassin'') (Some evil)]) (Some 1) 1 = Some False
   \<and> hcPlayer
     (questGame [samplePlayer 0 (Some ''loyal_servant'') (Some good),
                 samplePlayer 1 (Some ''assassin'') (Some evil)]) (Some 0)
     = Some (samplePlayer 0 (Some ''loyal_servant'') (Some good))
   \<and> questVotesSent (Some ''g1'') (Some 0)
       [(questGame [samplePlayer 0 (Some ''loyal_servant'') (Some good),
                    samplePlayer 1 (Some ''assassin'') (Some evil)], 0),
        (questGame [samplePlayer 0 (Some ''loyal_servant'') (Some good),
                    samplePlayer 1 (Some ''assassin'') (Some evil)], 1),
        (questGame [samplePlayer 0 None None, samplePlayer 1 None None], 0)]
     = [True, True]"
  using good_player_quest_vote_is_success [of
      "questGame [samplePlayer 0 (Some ''loyal_servant'') (Some good),
                  samplePlayer 1 (Some ''assassin'') (Some evil)]"
      "Some 0" "Some ''g1''" 0
      "[(questGame [samplePlayer 0 (Some ''loyal_servant'') (Some good),
                    samplePlayer 1 (Some ''assassin'') (Some evil)], 0),
        (questGame [samplePlayer 0 (Some ''loyal_servant'') (Some good),
                    samplePlayer 1 (Some ''assassin'') (Some evil)], 1),
        (questGame [samplePlayer 0 None None, samplePlayer 1 None None], 0)]"]
    good_player_quest_vote_is_success [of
      "questGame [samplePlayer 0 (Some ''loyal_servant'') (Some good),
                  samplePlayer 1 (Some ''assassin'') (Some evil)]"
      "Some 1" "Some ''g1''" 1 "[]"]
  by (simp add: questButtons_def isEvil_def hcPlayer_def js_index_def clickQuestButton_def
      handleQuestVote_def)

section \<open>Round filtering is repeatable and leaves its inputs alone\<close>

lemma filter_from_spec:
  "src < length h \<Longrightarrow> dst < length h \<Longrightarrow> src \<noteq> dst \<Longrightarrow> k + n \<le> length (h ! src) \<Longrightarrow>
   filter_from test src dst k n h
     = h[dst := (h ! dst) @ filter test (take n (drop k (h ! src)))]"
proof (induction n arbitrary: k h)
  case 0
  then show ?case by simp
next
  case (Suc n)
  let ?x = "(h ! src) ! k"
  let ?h = "if test ?x then h[dst := (h ! dst) @ [?x]] else h"
  have k: "k < length (h ! src)" using Suc.prems(4) by simp
  have src: "?h ! src = h ! src" using Suc.prems(3) by simp
  have len: "length ?h = length h" by simp
  have dst: "?h ! dst = (h ! dst) @ (if test ?x then [?x] else [])"
    using Suc.prems(2) by simp
  have upd: "?h[dst := ys] = h[dst := ys]" for ys by simp
  have split: "take (Suc n) (drop k (h ! src)) = ?x # take n (drop (Suc k) (h ! src))"
    using k by (simp flip: Cons_nth_drop_Suc)
  have "filter_from test src dst (Suc k) n ?h
      = ?h[dst := (?h ! dst) @ filter test (take n (drop (Suc k) (?h ! src)))]"
    using Suc.prems by (intro Suc.IH) (simp_all only: len src, simp_all)
  also have "\<dots> = h[dst := ((h ! dst) @ (if test ?x then [?x] else []))
                        @ filter test (take n (drop (Suc k) (h ! src)))]"
    by (simp only: upd dst src)
  also have "\<dots> = h[dst := (h ! dst) @ filter test (take (Suc n) (drop k (h ! src)))]"
    by (simp add: split)
  finally show ?case by (simp add: Let_def)
qed

lemma js_filter_spec:
  "src < length h \<Longrightarrow> js_filter test src h = Some (length h, h @ [filter test (h ! src)])"
proof -
  assume src: "src < length h"
  have "filter_from test src (length h) 0 (length (h ! src)) (h @ [[]])
      = (h @ [[]])[length h := ((h @ [[]]) ! length h)
           @ filter test (take (length (h ! src)) (drop 0 ((h @ [[]]) ! src)))]"
    using src by (intro filter_from_spec) (simp_all add: nth_append)
  also have "\<dots> = h @ [filter test (h ! src)]"
    using src by (simp add: nth_append)
  finally show ?thesis using src by (simp add: js_filter_def Let_def)
qed

lemma find_from_spec:
  "k + n \<le> length (h ! src) \<Longrightarrow> find_from test src k n h = find test (take n (drop k (h ! src)))"
proof (induction n arbitrary: k)
  case 0
  then show ?case by simp
next
  case (Suc n)
  have k: "k < length (h ! src)" using Suc.prems by simp
  have split: "take (Suc n) (drop k (h ! src)) = (h ! src) ! k # take n (drop (Suc k) (h ! src))"
    using k by (simp flip: Cons_nth_drop_Suc)
  have "find_from test src (Suc k) n h = find test (take n (drop (Suc k) (h ! src)))"
    using Suc.prems by (intro Suc.IH) simp
  then show ?case by (simp add: split Let_def)
qed

lemma js_find_spec: "src < length h \<Longrightarrow> js_find test src h = Some (find test (h ! src))"
  by (simp add: js_find_def find_from_spec)

lemma msgRound_test:
  "msgRound msg = r \<longleftrightarrow>
     (m_round msg = Some r \<and> r \<noteq> 0) \<or> ((m_round msg = None \<or> m_round msg = Some 0) \<and> r = 1)"
  by (auto simp: msgRound_def split: option.splits)

lemma discussionView_spec:
  assumes "messages props < length (msgArrays h)" and "votes props < length (voteArrays h)"
    and "questResults props < length (questArrays h)"
  shows "discussionView props h =
     Some (\<lparr>filteredMessages = length (msgArrays h), filteredVotes = length (voteArrays h),
            questResult = find (\<lambda>q. q_round q = displayRound props)
                            (questArrays h ! questResults props)\<rparr>,
           h\<lparr>msgArrays := msgArrays h
                @ [filter (\<lambda>msg. msgRound msg = displayRound props)
                     (msgArrays h ! messages props)],
             voteArrays := voteArrays h
                @ [filter (\<lambda>vote. v_round vote = displayRound props)
                     (voteArrays h ! votes props)]\<rparr>)"
  using assms by (simp add: discussionView_def js_filter_spec js_find_spec)

text \<open>
  Claim C6. On any memory in which the three props are references, the computation of
  the round-filtered messages, the round-filtered votes and the round's quest result
  returns; every array that existed before, the three input arrays among them, has the
  contents it had; the two results are new arrays that hold, in the order of the input,
  exactly the messages whose round (a missing round or round 0 counting as 1) is the
  display round and exactly the votes of the display round, and the quest result is the
  first quest result of the display round, if any. A second computation on the memory
  that the first one left returns results with the same contents and again leaves the
  inputs as they were.
\<close>

theorem discussion_view_pure_and_repeatable:
  assumes "messages props < length (msgArrays h)" and "votes props < length (voteArrays h)"
    and "questResults props < length (questArrays h)"
  shows "\<exists>v h' v2 h2.
       discussionView props h = Some (v, h') \<and> discussionView props h' = Some (v2, h2)
       \<and> take (length (msgArrays h)) (msgArrays h') = msgArrays h
       \<and> take (length (voteArrays h)) (voteArrays h') = voteArrays h
       \<and> questArrays h' = questArrays h
       \<and> msgArrays h' ! messages props = msgArrays h ! messages props
       \<and> voteArrays h' ! votes props = voteArrays h ! votes props
       \<and> msgArrays h' ! filteredMessages v
           = filter (\<lambda>msg. (m_round msg = Some (displayRound props) \<and> displayRound props \<noteq> 0)
                          \<or> ((m_round msg = None \<or> m_round msg = Some 0) \<and> displayRound props = 1))
               (msgArrays h ! messages props)
       \<and> voteArrays h' ! filteredVotes v
           = filter (\<lambda>vote. v_round vote = displayRound props) (voteArrays h ! votes props)
       \<and> questResult v
           = find (\<lambda>q. q_round q = displayRound props) (questArrays h ! questResults props)
       \<and> msgArrays h2 ! filteredMessages v2 = msgArrays h' ! filteredMessages v
       \<and> voteArrays h2 ! filteredVotes v2 = voteArrays h' ! filteredVotes v
       \<and> questResult v2 = questResult v
       \<and> take (length (msgArrays h)) (msgArrays h2) = msgArrays h
       \<and> take (length (voteArrays h)) (voteArrays h2) = voteArrays h
       \<and> questArrays h2 = questArrays h"
proof -
  let ?fm = "filter (\<lambda>msg. msgRound msg = displayRound props) (msgArrays h ! messages props)"
  let ?fv = "filter (\<lambda>vote. v_round vote = displayRound props) (voteArrays h ! votes props)"
  let ?qr = "find (\<lambda>q. q_round q = displayRound props) (questArrays h ! questResults props)"
  let ?v = "\<lparr>filteredMessages = length (msgArrays h), filteredVotes = length (voteArrays h),
            questResult = ?qr\<rparr>"
  let ?h' = "h\<lparr>msgArrays := msgArrays h @ [?fm], voteArrays := voteArrays h @ [?fv]\<rparr>"
  let ?v2 = "\<lparr>filteredMessages = Suc (length (msgArrays h)),
             filteredVotes = Suc (length (voteArrays h)), questResult = ?qr\<rparr>"
  let ?h2 = "h\<lparr>msgArrays := (msgArrays h @ [?fm]) @ [?fm],
               voteArrays := (voteArrays h @ [?fv]) @ [?fv]\<rparr>"
  have first: "discussionView props h = Some (?v, ?h')"
    using assms by (rule discussionView_spec)
  have refs: "messages props < length (msgArrays ?h')" "votes props < length (voteArrays ?h')"
    "questResults props < length (questArrays ?h')"
    using assms by simp_all
  have second: "discussionView props ?h' = Some (?v2, ?h2)"
    using discussionView_spec [OF refs] assms by (simp add: nth_append)
  have fm: "?fm = filter (\<lambda>msg. (m_round msg = Some (displayRound props) \<and> displayRound props \<noteq> 0)
                          \<or> ((m_round msg = None \<or> m_round msg = Some 0) \<and> displayRound props = 1))
               (msgArrays h ! messages props)"
    by (simp add: msgRound_test)
  have m1: "msgArrays ?h' ! filteredMessages ?v = ?fm" by simp
  have m2: "msgArrays ?h2 ! filteredMessages ?v2 = ?fm"
    by (simp add: nth_append)
  have v2: "voteArrays ?h2 ! filteredVotes ?v2 = ?fv"
    by (simp add: nth_append)
  show ?thesis
    apply (rule exI [of _ ?v], rule exI [of _ ?h'], rule exI [of _ ?v2], rule exI [of _ ?h2])
    apply (intro conjI)
    subgoal by (rule first)
    subgoal by (rule second)
    subgoal by simp
    subgoal by simp
    subgoal by simp
    subgoal using assms(1) by (simp add: nth_append)
    subgoal using assms(2) by (simp add: nth_append)
    subgoal using m1 fm by simp
    subgoal by simp
    subgoal by simp
    subgoal using m1 m2 by simp
    subgoal using v2 by simp
    subgoal by simp
    subgoal by simp
    subgoal by simp
    subgoal by simp
    done
qed

theorem discussion_view_pure_and_repeatable_witness:
  "messages \<lparr>messages = 0, votes = 1, questResults = 0, displayRound = 1\<rparr>
      < length (msgArrays sampleHeap)
   \<and> votes \<lparr>messages = 0, votes = 1, questResults = 0, displayRound = 1\<rparr>
      < length (voteArrays sampleHeap)
   \<and> questResults \<lparr>messages = 0, votes = 1, questResults = 0, displayRound = 1\<rparr>
      < length (questArrays sampleHeap)
   \<and> discussionView \<lparr>messages = 0, votes = 1, questResults = 0, displayRound = 1\<rparr> sampleHeap
     = Some (\<lparr>filteredMessages = 1, filteredVotes = 2, questResult = Some (sampleQuest 1 True)\<rparr>,
         \<lparr>msgArrays = [[sampleMsg 0 (Some 1), sampleMsg 1 (Some 2), sampleMsg 2 None,
                        sampleMsg 3 (Some 0)],
                       [sampleMsg 0 (Some 1), sampleMsg 2 None, sampleMsg 3 (Some 0)]],
          voteArrays = [[], [sampleVote 1 1 False, sampleVote 1 2 True, sampleVote 2 1 True],
                        [sampleVote 1 1 False, sampleVote 1 2 True]],
          questArrays = [[sampleQuest 2 False, sampleQuest 1 True, sampleQuest 1 False]]\<rparr>)"
  using discussion_view_pure_and_repeatable [of
      "\<lparr>messages = 0, votes = 1, questResults = 0, displayRound = 1\<rparr>" sampleHeap]
  by (simp add: discussionView_def js_filter_def js_find_def msgRound_def Let_def)

section \<open>Storing a game state in god mode\<close>

lemma mergePlayer_frame:
  "seat (mergePlayer es p) = seat p" "name (mergePlayer es p) = name p"
  "is_human (mergePlayer es p) = is_human p" "model_name (mergePlayer es p) = model_name p"
  "is_on_quest (mergePlayer es p) = is_on_quest p" "is_leader (mergePlayer es p) = is_leader p"
  by (simp_all add: mergePlayer_def split: option.splits)

lemma mergePlayer_keeps:
  "find (\<lambda>e. seat e = seat p) es = Some e \<Longrightarrow> truthy_str (role e) \<Longrightarrow> \<not> truthy_str (role p)
   \<Longrightarrow> mergePlayer es p = p\<lparr>role := role e, team := team e\<rparr>"
  by (simp add: mergePlayer_def)

lemma mergePlayer_same:
  "\<not> (\<exists>e. find (\<lambda>e. seat e = seat p) es = Some e \<and> truthy_str (role e) \<and> \<not> truthy_str (role p))
   \<Longrightarrow> mergePlayer es p = p"
  by (auto simp: mergePlayer_def split: option.splits)

lemma setGameState_god:
  "godMode store \<Longrightarrow> gameState store = Some existing \<Longrightarrow>
   gameState (setGameState state store)
     = Some (state\<lparr>players := map (mergePlayer (players existing)) (players state)\<rparr>)"
  by (simp add: setGameState_def)

lemma setGameState_plain:
  "\<not> godMode store \<or> gameState store = None \<Longrightarrow> gameState (setGameState state store) = Some state"
  by (auto simp: setGameState_def split: option.splits)

lemma setGameState_store:
  "setGameState state store = store\<lparr>gameState := gameState (setGameState state store)\<rparr>"
  by (simp add: setGameState_def split: option.splits)

text \<open>
  Claim C8. When \<open>godMode\<close> is true and a game state is stored, the new stored state is
  the incoming state with a merged player list of the same length: at every position, the
  merged player is the incoming player, except that when the incoming record has no role
  and the stored record of the same seat has one, role and team are the stored ones; all
  other player fields and all non-player fields are the incoming ones. When \<open>godMode\<close> is
  false or nothing is stored, the incoming state is stored as it is. The other fields of
  the store do not change.
\<close>

theorem setGameState_preserves_roles_only:
  "(godMode store \<and> gameState store = Some existing \<longrightarrow>
      (\<exists>merged.
         gameState (setGameState state store) = Some (state\<lparr>players := merged\<rparr>)
         \<and> length merged = length (players state)
         \<and> (\<forall>i < length (players state).
              seat (merged ! i) = seat (players state ! i)
              \<and> name (merged ! i) = name (players state ! i)
              \<and> is_human (merged ! i) = is_human (players state ! i)
              \<and> model_name (merged ! i) = model_name (players state ! i)
              \<and> is_on_quest (merged ! i) = is_on_quest (players state ! i)
              \<and> is_leader (merged ! i) = is_leader (players state ! i)
              \<and> (\<forall>e. find (\<lambda>e. seat e = seat (players state ! i)) (players existing) = Some e
                      \<and> truthy_str (role e) \<and> \<not> truthy_str (role (players state ! i))
                    \<longrightarrow> role (merged ! i) = role e \<and> team (merged ! i) = team e)
              \<and> (\<not> (\<exists>e. find (\<lambda>e. seat e = seat (players state ! i)) (players existing) = Some e
                      \<and> truthy_str (role e) \<and> \<not> truthy_str (role (players state ! i)))
                    \<longrightarrow> merged ! i = players state ! i))))
   \<and> (\<not> godMode store \<or> gameState store = None \<longrightarrow>
        gameState (setGameState state store) = Some state)
   \<and> setGameState state store = store\<lparr>gameState := gameState (setGameState state store)\<rparr>"
proof -
  have a: "godMode store \<and> gameState store = Some existing \<longrightarrow>
      (\<exists>merged.
         gameState (setGameState state store) = Some (state\<lparr>players := merged\<rparr>)
         \<and> length merged = length (players state)
         \<and> (\<forall>i < length (players state).
              seat (merged ! i) = seat (players state ! i)
              \<and> name (merged ! i) = name (players state ! i)
              \<and> is_human (merged ! i) = is_human (players state ! i)
              \<and> model_name (merged ! i) = model_name (players state ! i)
              \<and> is_on_quest (merged ! i) = is_on_quest (players state ! i)
              \<and> is_leader (merged ! i) = is_leader (players state ! i)
              \<and> (\<forall>e. find (\<lambda>e. seat e = seat (players state ! i)) (players existing) = Some e
                      \<and> truthy_str (role e) \<and> \<not> truthy_str (role (players state ! i))
                    \<longrightarrow> role (merged ! i) = role e \<and> team (merged ! i) = team e)
              \<and> (\<not> (\<exists>e. find (\<lambda>e. seat e = seat (players state ! i)) (players existing) = Some e
                      \<and> truthy_str (role e) \<and> \<not> truthy_str (role (players state ! i)))
                    \<longrightarrow> merged ! i = players state ! i)))"
  proof
    assume g: "godMode store \<and> gameState store = Some existing"
    let ?m = "map (mergePlayer (players existing)) (players state)"
    have st: "gameState (setGameState state store) = Some (state\<lparr>players := ?m\<rparr>)"
      using g by (simp add: setGameState_god)
    have len: "length ?m = length (players state)" by simp
    have each: "\<forall>i < length (players state).
              seat (?m ! i) = seat (players state ! i)
              \<and> name (?m ! i) = name (players state ! i)
              \<and> is_human (?m ! i) = is_human (players state ! i)
              \<and> model_name (?m ! i) = model_name (players state ! i)
              \<and> is_on_quest (?m ! i) = is_on_quest (players state ! i)
              \<and> is_leader (?m ! i) = is_leader (players state ! i)
              \<and> (\<forall>e. find (\<lambda>e. seat e = seat (players state ! i)) (players existing) = Some e
                      \<and> truthy_str (role e) \<and> \<not> truthy_str (role (players state ! i))
                    \<longrightarrow> role (?m ! i) = role e \<and> team (?m ! i) = team e)
              \<and> (\<not> (\<exists>e. find (\<lambda>e. seat e = seat (players state ! i)) (players existing) = Some e
                      \<and> truthy_str (role e) \<and> \<not> truthy_str (role (players state ! i)))
                    \<longrightarrow> ?m ! i = players state ! i)"
    proof (intro allI impI)
      fix i assume i: "i < length (players state)"
      let ?p = "players state ! i"
      have nth: "?m ! i = mergePlayer (players existing) ?p" using i by simp
      have keep: "\<forall>e. find (\<lambda>e. seat e = seat ?p) (players existing) = Some e
                      \<and> truthy_str (role e) \<and> \<not> truthy_str (role ?p)
                    \<longrightarrow> role (?m ! i) = role e \<and> team (?m ! i) = team e"
        using mergePlayer_keeps [of ?p "players existing"] nth by auto
      have same: "\<not> (\<exists>e. find (\<lambda>e. seat e = seat ?p) (players existing) = Some e
                      \<and> truthy_str (role e) \<and> \<not> truthy_str (role ?p))
                    \<longrightarrow> ?m ! i = ?p"
        using mergePlayer_same [of ?p "players existing"] nth by simp
      show "seat (?m ! i) = seat ?p
              \<and> name (?m ! i) = name ?p
              \<and> is_human (?m ! i) = is_human ?p
              \<and> model_name (?m ! i) = model_name ?p
              \<and> is_on_quest (?m ! i) = is_on_quest ?p
              \<and> is_leader (?m ! i) = is_leader ?p
              \<and> (\<forall>e. find (\<lambda>e. seat e = seat ?p) (players existing) = Some e
                      \<and> truthy_str (role e) \<and> \<not> truthy_str (role ?p)
                    \<longrightarrow> role (?m ! i) = role e \<and> team (?m ! i) = team e)
              \<and> (\<not> (\<exists>e. find (\<lambda>e. seat e = seat ?p) (players existing) = Some e
                      \<and> truthy_str (role e) \<and> \<not> truthy_str (role ?p))
                    \<longrightarrow> ?m ! i = ?p)"
        using keep same by (simp add: nth mergePlayer_frame)
    qed
    show "\<exists>merged.
         gameState (setGameState state store) = Some (state\<lparr>players := merged\<rparr>)
         \<and> length merged = length (players state)
         \<and> (\<forall>i < length (players state).
              seat (merged ! i) = seat (players state ! i)
              \<and> name (merged ! i) = name (players state ! i)
              \<and> is_human (merged ! i) = is_human (players state ! i)
              \<and> model_name (merged ! i) = model_name (players state ! i)
              \<and> is_on_quest (merged ! i) = is_on_quest (players state ! i)
              \<and> is_leader (merged ! i) = is_leader (players state ! i)
              \<and> (\<forall>e. find (\<lambda>e. seat e = seat (players state ! i)) (players existing) = Some e
                      \<and> truthy_str (role e) \<and> \<not> truthy_str (role (players state ! i))
                    \<longrightarrow> role (merged ! i) = role e \<and> team (merged ! i) = team e)
              \<and> (\<not> (\<exists>e. find (\<lambda>e. seat e = seat (players state ! i)) (players existing) = Some e
                      \<and> truthy_str (role e) \<and> \<not> truthy_str (role (players state ! i)))
                    \<longrightarrow> merged ! i = players state ! i))"
      using st len each by (intro exI [of _ ?m] conjI)
  qed
  have b: "\<not> godMode store \<or> gameState store = None \<longrightarrow>
        gameState (setGameState state store) = Some state"
    using setGameState_plain [of store state] by blast
  have c: "setGameState state store = store\<lparr>gameState := gameState (setGameState state store)\<rparr>"
    by (rule setGameState_store)
  show ?thesis using a b c by (intro conjI)
qed

theorem setGameState_preserves_roles_only_witness:
  "setGameState (sampleGame 2 [samplePlayer 0 None None, samplePlayer 1 None (Some evil),
                               samplePlayer 2 (Some ''minion'') (Some evil)])
     (sampleStore True (Some (sampleGame 1
         [samplePlayer 0 (Some ''merlin'') (Some good), samplePlayer 1 (Some ''assassin'') (Some evil),
          samplePlayer 2 (Some ''loyal_servant'') (Some good)])))
   = sampleStore True (Some (sampleGame 2
         [samplePlayer 0 (Some ''merlin'') (Some good), samplePlayer 1 (Some ''assassin'') (Some evil),
          samplePlayer 2 (Some ''minion'') (Some evil)]))
   \<and> setGameState (sampleGame 2 [samplePlayer 0 None None, samplePlayer 1 None (Some evil)])
     (sampleStore False (Some (sampleGame 1
         [samplePlayer 0 (Some ''merlin'') (Some good), samplePlayer 1 (Some ''assassin'') (Some evil)])))
   = sampleStore False (Some (sampleGame 2 [samplePlayer 0 None None, samplePlayer 1 None (Some evil)]))"
  using setGameState_preserves_roles_only [of
      "sampleStore True (Some (sampleGame 1
         [samplePlayer 0 (Some ''merlin'') (Some good), samplePlayer 1 (Some ''assassin'') (Some evil),
          samplePlayer 2 (Some ''loyal_servant'') (Some good)]))"
      "sampleGame 1
         [samplePlayer 0 (Some ''merlin'') (Some good), samplePlayer 1 (Some ''assassin'') (Some evil),
          samplePlayer 2 (Some ''loyal_servant'') (Some good)]"
      "sampleGame 2 [samplePlayer 0 None None, samplePlayer 1 None (Some evil),
                               samplePlayer 2 (Some ''minion'') (Some evil)]"]
    setGameState_preserves_roles_only [of
      "sampleStore False (Some (sampleGame 1
         [samplePlayer 0 (Some ''merlin'') (Some good), samplePlayer 1 (Some ''assassin'') (Some evil)]))"
      "sampleGame 1
         [samplePlayer 0 (Some ''merlin'') (Some good), samplePlayer 1 (Some ''assassin'') (Some evil)]"
      "sampleGame 2 [samplePlayer 0 None None, samplePlayer 1 None (Some evil)]"]
  by (simp add: setGameState_def mergePlayer_def)

section \<open>Vote attempts of the match engine\<close>

lemma step_attemptInv:
  assumes "attemptInv m" and "step m d = Some m'"
  shows "attemptInv m'"
proof (cases d)
  case (TeamVotes vs)
  then show ?thesis using assms
    by (auto simp: attemptInv_def split: if_splits)
next
  case (QuestVotes qs)
  then show ?thesis using assms
    by (auto simp: attemptInv_def Let_def split: if_splits)
qed (use assms in \<open>auto simp: attemptInv_def split: if_splits\<close>)

lemma run_attemptInv: "attemptInv m \<Longrightarrow> attemptInv (run m ds)"
proof (induction ds arbitrary: m)
  case Nil
  then show ?case by simp
next
  case (Cons d ds)
  show ?case
  proof (cases "step m d")
    case None
    then show ?thesis using Cons by simp
  next
    case (Some m')
    then have "attemptInv m'" using Cons.prems by (simp add: step_attemptInv)
    then show ?thesis using Cons.IH Some by simp
  qed
qed

lemma step_game_over: "mt_phase m = game_over \<Longrightarrow> step m d = None"
  by (cases d) simp_all

lemma run_game_over: "mt_phase m = game_over \<Longrightarrow> run m ds = m"
  by (induction ds) (simp_all add: step_game_over)

lemma createMatch_attemptInv: "createMatch n = Some m \<Longrightarrow> attemptInv m"
  by (auto simp: createMatch_def attemptInv_def split: if_splits)

text \<open>
  Claim C7. In every state reachable from a created match that is not terminal, the vote
  attempt lies in [1,5]. A rejected team vote increments the attempt; when the attempt
  then exceeds 5 the match is in \<open>game_over\<close> with winner evil, and from there no sequence
  of decisions changes the match, so \<open>team_selection\<close> is not entered again.
\<close>

theorem vote_attempt_bounded_and_exhaustion_terminal:
  assumes "createMatch n = Some m0" and "m = run m0 ds"
  shows "(mt_phase m \<noteq> game_over \<longrightarrow> 1 \<le> mt_attempt m \<and> mt_attempt m \<le> 5)
       \<and> (mt_phase m = team_vote \<and> length vs = mt_player_count m \<and> \<not> voteApproved m vs \<longrightarrow>
            (\<exists>m'. step m (TeamVotes vs) = Some m'
               \<and> mt_attempt m' = mt_attempt m + 1
               \<and> (mt_attempt m' > 5 \<longrightarrow>
                    mt_phase m' = game_over \<and> mt_winner m' = Some evil
                    \<and> (\<forall>ds'. run m' ds' = m' \<and> mt_phase (run m' ds') \<noteq> team_selection))
               \<and> (mt_attempt m' \<le> 5 \<longrightarrow>
                    mt_phase m' = team_selection \<and> mt_round m' = mt_round m
                    \<and> mt_leader m' = rotateLeader m)))"
proof -
  have inv: "attemptInv m"
    using assms createMatch_attemptInv [of n m0] run_attemptInv [of m0 ds] by simp
  have a: "mt_phase m \<noteq> game_over \<longrightarrow> 1 \<le> mt_attempt m \<and> mt_attempt m \<le> 5"
    using inv by (simp add: attemptInv_def)
  have b: "mt_phase m = team_vote \<and> length vs = mt_player_count m \<and> \<not> voteApproved m vs \<longrightarrow>
            (\<exists>m'. step m (TeamVotes vs) = Some m'
               \<and> mt_attempt m' = mt_attempt m + 1
               \<and> (mt_attempt m' > 5 \<longrightarrow>
                    mt_phase m' = game_over \<and> mt_winner m' = Some evil
                    \<and> (\<forall>ds'. run m' ds' = m' \<and> mt_phase (run m' ds') \<noteq> team_selection))
               \<and> (mt_attempt m' \<le> 5 \<longrightarrow>
                    mt_phase m' = team_selection \<and> mt_round m' = mt_round m
                    \<and> mt_leader m' = rotateLeader m))"
  proof
    assume h: "mt_phase m = team_vote \<and> length vs = mt_player_count m \<and> \<not> voteApproved m vs"
    show "\<exists>m'. step m (TeamVotes vs) = Some m'
               \<and> mt_attempt m' = mt_attempt m + 1
               \<and> (mt_attempt m' > 5 \<longrightarrow>
                    mt_phase m' = game_over \<and> mt_winner m' = Some evil
                    \<and> (\<forall>ds'. run m' ds' = m' \<and> mt_phase (run m' ds') \<noteq> team_selection))
               \<and> (mt_attempt m' \<le> 5 \<longrightarrow>
                    mt_phase m' = team_selection \<and> mt_round m' = mt_round m
                    \<and> mt_leader m' = rotateLeader m)"
    proof (cases "mt_attempt m + 1 > 5")
      case True
      let ?m' = "m\<lparr>mt_attempt := mt_attempt m + 1, mt_phase := game_over, mt_winner := Some evil\<rparr>"
      have s: "step m (TeamVotes vs) = Some ?m'" using h True by simp
      have over: "mt_phase ?m' = game_over" by simp
      have stay: "\<forall>ds'. run ?m' ds' = ?m' \<and> mt_phase (run ?m' ds') \<noteq> team_selection"
        using run_game_over [OF over] by simp
      show ?thesis using s True stay by (intro exI [of _ ?m']) simp
    next
      case False
      let ?m' = "m\<lparr>mt_attempt := mt_attempt m + 1, mt_leader := rotateLeader m,
                   mt_team := [], mt_phase := team_selection\<rparr>"
      have s: "step m (TeamVotes vs) = Some ?m'" using h False by simp
      show ?thesis using s False by (intro exI [of _ ?m']) simp
    qed
  qed
  show ?thesis using a b by (intro conjI)
qed

theorem vote_attempt_bounded_and_exhaustion_terminal_witness:
  "createMatch 5 = Some (sampleMatch role_assignment 0 1 [] [])
   \<and> run (sampleMatch role_assignment 0 1 [] [])
        ([AssignRoles sampleRoles, DeliverKnowledge] @ rejectedProposal @ rejectedProposal
         @ rejectedProposal @ rejectedProposal @ [ProposeTeam [0, 1], CloseDiscussion])
      = sampleMatch team_vote 4 5 [0, 1] sampleRoles
   \<and> step (sampleMatch team_vote 4 5 [0, 1] sampleRoles)
        (TeamVotes [True, True, False, False, False])
      = Some ((sampleMatch game_over 4 6 [0, 1] sampleRoles)\<lparr>mt_winner := Some evil\<rparr>)
   \<and> run ((sampleMatch game_over 4 6 [0, 1] sampleRoles)\<lparr>mt_winner := Some evil\<rparr>)
        rejectedProposal
      = (sampleMatch game_over 4 6 [0, 1] sampleRoles)\<lparr>mt_winner := Some evil\<rparr>"
proof -
  have c: "createMatch 5 = Some (sampleMatch role_assignment 0 1 [] [])"
    by (simp add: createMatch_def)
  have r: "run (sampleMatch role_assignment 0 1 [] [])
        ([AssignRoles sampleRoles, DeliverKnowledge] @ rejectedProposal @ rejectedProposal
         @ rejectedProposal @ rejectedProposal @ [ProposeTeam [0, 1], CloseDiscussion])
      = sampleMatch team_vote 4 5 [0, 1] sampleRoles"
    by (simp add: ruleTableSize_def QUEST_SIZES_def js_index_def voteApproved_def
        rotateLeader_def)
  have v: "\<not> voteApproved (sampleMatch team_vote 4 5 [0, 1] sampleRoles)
        [True, True, False, False, False]"
    by (simp add: voteApproved_def)
  show ?thesis
    using vote_attempt_bounded_and_exhaustion_terminal [OF c r [symmetric],
        of "[True, True, False, False, False]"] c r v
    by (simp add: step_game_over)
qed

end
